theory Spec2Isabelle
  imports Complex_Main
begin

section \<open>Values of the training harness\<close>

text \<open>
  The harness of \<^verbatim>\<open>trainer.py\<close> drives collaborators it does not define: the network, its
  loss, the optimizer, the scheduler, the two data loaders, the clock and the plotting and
  logging sinks. The collaborators are parameters of the model (record \<open>env\<close>); what the harness
  does with them (the order of calls, the guards, the files it names, the history it keeps)
  is translated statement by statement.

  A loss is a NumPy float. Reals stand for the finite values (rounding and overflow are not
  modelled); \<open>NaN\<close> is kept, because \<^verbatim>\<open>np.mean([])\<close> is NaN and every comparison with NaN
  is false.
\<close>

datatype npfloat = NaN | Fin real

fun np_less :: "npfloat \<Rightarrow> npfloat \<Rightarrow> bool" where
  "np_less (Fin a) (Fin b) = (a < b)"
| "np_less _ _ = False"

fun np_sum :: "npfloat list \<Rightarrow> npfloat" where
  "np_sum [] = Fin 0"
| "np_sum (NaN # xs) = NaN"
| "np_sum (Fin a # xs) = (case np_sum xs of NaN \<Rightarrow> NaN | Fin b \<Rightarrow> Fin (a + b))"

definition np_mean :: "npfloat list \<Rightarrow> npfloat" where
  "np_mean xs =
     (case xs of
        [] \<Rightarrow> NaN
      | _ # _ \<Rightarrow> (case np_sum xs of NaN \<Rightarrow> NaN | Fin s \<Rightarrow> Fin (s / real (length xs))))"

text \<open>
  A tensor is a shape, the values by flat index, and the device it lives on.
  \<^verbatim>\<open>view\<close> keeps the values and needs the same number of elements (tensors are taken
  to be contiguous: the stride check of the framework is not modelled); indexing with
  \<^verbatim>\<open>[0]\<close> takes the first slice along the first dimension.
\<close>

record tensor =
  shape :: "nat list"
  elems :: "nat \<Rightarrow> real"
  on_gpu :: bool

datatype error =
  ZeroDivisionError | IndexError | RuntimeError | AttributeError | UnboundLocalError

definition numel :: "tensor \<Rightarrow> nat" where
  "numel t = prod_list (shape t)"

definition view :: "tensor \<Rightarrow> nat list \<Rightarrow> error + tensor" where
  "view t dims =
     (if prod_list dims = numel t then Inr (t\<lparr>shape := dims\<rparr>) else Inl RuntimeError)"

definition item0 :: "tensor \<Rightarrow> error + tensor" where
  "item0 t =
     (case shape t of
        [] \<Rightarrow> Inl IndexError
      | n # ds \<Rightarrow> if n = 0 then Inl IndexError else Inr (t\<lparr>shape := ds\<rparr>))"

definition cuda :: "tensor \<Rightarrow> tensor" where
  "cuda t = t\<lparr>on_gpu := True\<rparr>"

definition cpu :: "tensor \<Rightarrow> tensor" where
  "cpu t = t\<lparr>on_gpu := False\<rparr>"

text \<open>\<^verbatim>\<open>str\<close> of a Python int, and \<^verbatim>\<open>os.path.join\<close> of two components.\<close>

fun digits_of :: "nat \<Rightarrow> string" where
  "digits_of n =
     (if n < 10 then [''0123456789'' ! n]
      else digits_of (n div 10) @ [''0123456789'' ! (n mod 10)])"

declare digits_of.simps [simp del]

definition str_int :: "int \<Rightarrow> string" where
  "str_int i = (if i < 0 then CHR ''-'' # digits_of (nat (- i)) else digits_of (nat i))"

datatype tag = TagStr string | TagInt int

fun str_tag :: "tag \<Rightarrow> string" where
  "str_tag (TagStr s) = s"
| "str_tag (TagInt i) = str_int i"

definition path_join :: "string \<Rightarrow> string \<Rightarrow> string" where
  "path_join a b =
     (case b of
        [] \<Rightarrow> (if a = [] \<or> last a = CHR ''/'' then a else a @ ''/'')
      | c # _ \<Rightarrow>
          if c = CHR ''/'' then b
          else if a = [] \<or> last a = CHR ''/'' then a @ b
          else a @ ''/'' @ b)"

section \<open>The trainer object, its collaborators and its effects\<close>

text \<open>
  A data loader: the dataset behind it (\<^verbatim>\<open>loader.dataset\<close>, read by index) and the
  batches one pass over the loader yields. Both hold pairs of a point tensor and a label
  the harness ignores.
\<close>

record loader =
  loader_dataset :: "(tensor \<times> nat) list"
  loader_batches :: "(tensor \<times> nat) list"

text \<open>The attributes \<^verbatim>\<open>__init__\<close> copies from \<^verbatim>\<open>args\<close>; none is assigned afterwards.
  \<open>writer\<close> is the truth value of \<^verbatim>\<open>self.writer\<close>, tested by \<^verbatim>\<open>train\<close>.\<close>

record config =
  epoch :: int
  num_points :: int
  batch_size :: int
  dataset :: string
  save_dir :: string
  result_dir :: string
  gpu_mode :: bool
  verbose :: bool
  scheduler_interval :: int
  snapshot_interval :: int
  writer :: bool
  train_loader :: loader
  test_loader :: loader

text \<open>
  The collaborators, over network parameters of type \<open>'m\<close>: the forward pass (it may depend
  on the train/eval mode), the loss, one optimizer update (\<^verbatim>\<open>zero_grad\<close>,
  \<^verbatim>\<open>backward\<close>, \<^verbatim>\<open>step\<close>) at the current learning rate, the learning rate after a number
  of scheduler steps, and the value of the \<open>k\<close>-th reading of the clock.

  The collaborators are total functions: an exception raised inside the network, the
  optimizer, the plotting library or the file system is outside the model, and so is the
  construction of the trainer (\<^verbatim>\<open>__init__\<close>, \<^verbatim>\<open>_load_pretrain\<close>). A loader yields the same
  batches at every pass. The exceptions the harness itself can raise are branches of the
  model: a zero divisor, an index out of range, a \<^verbatim>\<open>view\<close> of the wrong size, a missing
  attribute, an unbound local. A call that raises returns the error alone.
\<close>

record 'm env =
  forward :: "'m \<Rightarrow> bool \<Rightarrow> tensor \<Rightarrow> tensor"
  get_loss :: "'m \<Rightarrow> tensor \<Rightarrow> tensor \<Rightarrow> npfloat"
  optimize :: "'m \<Rightarrow> real \<Rightarrow> tensor \<Rightarrow> tensor \<Rightarrow> 'm"
  lr_schedule :: "nat \<Rightarrow> real"
  clock :: "nat \<Rightarrow> real"

datatype message =
    MsgTrainingStart
  | MsgBatch int int int npfloat real
  | MsgEpoch int npfloat real
  | MsgSaveModel string
  | MsgAverage npfloat int real
  | MsgFinish

text \<open>
  What the harness does to the outside, in order. \<open>Forward x training grad\<close> is a call
  \<^verbatim>\<open>self.model(x)\<close> made in the given train/eval mode and with autograd's gradient mode
  as it is at the call; \<open>GetLoss\<close> likewise records the gradient mode.
\<close>

datatype 'm event =
    Print message
  | SetMode bool
  | ZeroGrad
  | Forward tensor bool bool
  | GetLoss tensor tensor bool
  | Backward
  | OptimizerStep
  | SchedulerStep
  | SaveFig string tensor
  | TorchSave string 'm
  | AddScalar string npfloat int

record history =
  hist_loss :: "npfloat list"
  per_epoch_time :: "real list"
  total_time :: "real list"

text \<open>
  The mutable state: the network's parameters and mode, autograd's gradient mode (a global
  of the framework, which no statement of the harness sets), the scheduler's step count,
  the number of clock readings, \<^verbatim>\<open>self.train_hist\<close> (absent until \<^verbatim>\<open>train\<close> assigns it) and
  the effects so far.
\<close>

record 'm trainer =
  model_params :: 'm
  model_training :: bool
  grad_enabled :: bool
  sched_steps :: nat
  clock_ticks :: nat
  train_hist :: "history option"
  trace :: "'m event list"

record result =
  res_loss :: npfloat

text \<open>The local variables of \<^verbatim>\<open>train\<close> that live across iterations; \<open>res = None\<close> is
  the unbound name.\<close>

record locals =
  best_loss :: npfloat
  res :: "result option"

definition emit :: "'m event list \<Rightarrow> 'm trainer \<Rightarrow> 'm trainer" where
  "emit evs st = st\<lparr>trace := trace st @ evs\<rparr>"

definition time_now :: "'m env \<Rightarrow> 'm trainer \<Rightarrow> real \<times> 'm trainer" where
  "time_now env st = (clock env (clock_ticks st), st\<lparr>clock_ticks := Suc (clock_ticks st)\<rparr>)"

definition get_lr :: "'m env \<Rightarrow> 'm trainer \<Rightarrow> real" where
  "get_lr env st = lr_schedule env (sched_steps st)"

definition scheduler_step :: "'m trainer \<Rightarrow> 'm trainer" where
  "scheduler_step st = emit [SchedulerStep] (st\<lparr>sched_steps := Suc (sched_steps st)\<rparr>)"

definition snapshot_path :: "config \<Rightarrow> tag \<Rightarrow> string" where
  "snapshot_path cfg t = path_join (save_dir cfg) (dataset cfg) @ ''_'' @ str_tag t @ ''.pkl''"

definition snapshot :: "config \<Rightarrow> tag \<Rightarrow> 'm trainer \<Rightarrow> 'm trainer" where
  "snapshot cfg t st =
     emit [TorchSave (snapshot_path cfg t) (model_params st),
           Print (MsgSaveModel (snapshot_path cfg t))] st"

section \<open>The methods of the trainer\<close>

subsection \<open>\<^verbatim>\<open>train_epoch\<close>\<close>

text \<open>\<^verbatim>\<open>int(len(dataset) / batch_size)\<close>: true division, truncated towards zero and taken
  to be exact (the value only appears in the progress line); the caller raises
  \<open>ZeroDivisionError\<close> first when the batch size is zero.\<close>

definition num_batch_of :: "nat \<Rightarrow> int \<Rightarrow> int" where
  "num_batch_of n b = (if 0 < b then int n div b else - (int n div (- b)))"

text \<open>
  The batch loop of \<^verbatim>\<open>train_epoch\<close>, with \<open>iter\<close> the index \<^verbatim>\<open>enumerate\<close> supplies.
  The progress line is printed when \<^verbatim>\<open>(iter + 1) % 10 == 0 and self.verbose\<close>, and reads
  the clock once.
\<close>

fun train_batches ::
  "config \<Rightarrow> 'm env \<Rightarrow> int \<Rightarrow> real \<Rightarrow> int \<Rightarrow> int \<Rightarrow> (tensor \<times> nat) list \<Rightarrow>
   'm trainer \<times> npfloat list \<Rightarrow> 'm trainer \<times> npfloat list" where
  "train_batches cfg env ep t0 num_batch iter [] (st, loss_buf) = (st, loss_buf)"
| "train_batches cfg env ep t0 num_batch iter ((pts0, lbl) # rest) (st, loss_buf) =
     (let pts = (if gpu_mode cfg then cuda pts0 else pts0);
          output = forward env (model_params st) (model_training st) pts;
          loss = get_loss env (model_params st) pts output;
          st1 = emit [ZeroGrad,
                      Forward pts (model_training st) (grad_enabled st),
                      GetLoss pts output (grad_enabled st),
                      Backward,
                      OptimizerStep]
                  (st\<lparr>model_params := optimize env (model_params st) (get_lr env st) pts output\<rparr>);
          st2 = (if (iter + 1) mod 10 = 0 \<and> verbose cfg
                 then (case time_now env st1 of
                         (t, s) \<Rightarrow> emit [Print (MsgBatch (ep + 1) (iter + 1) num_batch loss (t - t0))] s)
                 else st1)
      in train_batches cfg env ep t0 num_batch (iter + 1) rest (st2, loss_buf @ [loss]))"

definition train_epoch :: "config \<Rightarrow> 'm env \<Rightarrow> int \<Rightarrow> 'm trainer \<Rightarrow> error + 'm trainer" where
  "train_epoch cfg env ep st =
     (case time_now env st of
        (epoch_start_time, st1) \<Rightarrow>
          if batch_size cfg = 0 then Inl ZeroDivisionError
          else
            (let num_batch = num_batch_of (length (loader_dataset (train_loader cfg))) (batch_size cfg)
             in case train_batches cfg env ep epoch_start_time num_batch 0
                       (loader_batches (train_loader cfg)) (st1, []) of
                  (st2, loss_buf) \<Rightarrow>
                    (case time_now env st2 of
                       (t1, st3) \<Rightarrow>
                         (let epoch_time = t1 - epoch_start_time
                          in case train_hist st3 of
                               None \<Rightarrow> Inl AttributeError
                             | Some h \<Rightarrow>
                                 Inr (emit [Print (MsgEpoch (ep + 1) (np_mean loss_buf) epoch_time)]
                                        (st3\<lparr>train_hist :=
                                                Some (h\<lparr>per_epoch_time := per_epoch_time h @ [epoch_time],
                                                        hist_loss := hist_loss h @ [np_mean loss_buf]\<rparr>)\<rparr>))))))"

subsection \<open>\<^verbatim>\<open>evaluate\<close>\<close>

text \<open>The loss loop of \<^verbatim>\<open>evaluate\<close>. The batches it is given are those of the loader the
  source iterates.\<close>

fun eval_batches ::
  "config \<Rightarrow> 'm env \<Rightarrow> (tensor \<times> nat) list \<Rightarrow> 'm trainer \<times> npfloat list \<Rightarrow>
   'm trainer \<times> npfloat list" where
  "eval_batches cfg env [] (st, loss_buf) = (st, loss_buf)"
| "eval_batches cfg env ((pts0, lbl) # rest) (st, loss_buf) =
     (let pts = (if gpu_mode cfg then cuda pts0 else pts0);
          output = forward env (model_params st) (model_training st) pts;
          loss = get_loss env (model_params st) pts output;
          st1 = emit [Forward pts (model_training st) (grad_enabled st),
                      GetLoss pts output (grad_enabled st)] st
      in eval_batches cfg env rest (st1, loss_buf @ [loss]))"

text \<open>
  The four statements both visualisation blocks share: \<^verbatim>\<open>pts, _ = loader.dataset[0]\<close>,
  the move to the GPU, and \<^verbatim>\<open>self.model(pts.view(1, 2048, 3))[0]\<close>. The result is the
  sample and its reconstruction.
\<close>

definition reconstruct ::
  "config \<Rightarrow> 'm env \<Rightarrow> loader \<Rightarrow> 'm trainer \<Rightarrow> error + (tensor \<times> tensor \<times> 'm trainer)" where
  "reconstruct cfg env ld st =
     (case loader_dataset ld of
        [] \<Rightarrow> Inl IndexError
      | (pts0, lbl) # _ \<Rightarrow>
          (let pts = (if gpu_mode cfg then cuda pts0 else pts0)
           in case view pts [1, 2048, 3] of
                Inl e \<Rightarrow> Inl e
              | Inr v \<Rightarrow>
                  (case item0 (forward env (model_params st) (model_training st) v) of
                     Inl e \<Rightarrow> Inl e
                   | Inr reconstructed_pl \<Rightarrow>
                       Inr (pts, reconstructed_pl,
                            emit [Forward v (model_training st) (grad_enabled st)] st))))"

text \<open>The paths \<^verbatim>\<open>evaluate\<close> saves figures to: \<^verbatim>\<open>self.result_dir + 'test_' + str(epoch) + ".png"\<close>
  and its siblings, plain concatenations.\<close>

definition test_png :: "config \<Rightarrow> int \<Rightarrow> string" where
  "test_png cfg ep = result_dir cfg @ ''test_'' @ str_int ep @ ''.png''"

definition test_0_png :: "config \<Rightarrow> string" where
  "test_0_png cfg = result_dir cfg @ ''test_0.png''"

definition train_png :: "config \<Rightarrow> int \<Rightarrow> string" where
  "train_png cfg ep = result_dir cfg @ ''train_'' @ str_int ep @ ''.png''"

definition train_origin_png :: "config \<Rightarrow> int \<Rightarrow> string" where
  "train_origin_png cfg ep = result_dir cfg @ ''train_'' @ str_int ep @ ''_origin.png''"

definition evaluate ::
  "config \<Rightarrow> 'm env \<Rightarrow> int \<Rightarrow> 'm trainer \<Rightarrow> error + (result \<times> 'm trainer)" where
  "evaluate cfg env ep st =
     (let st1 = emit [SetMode False] (st\<lparr>model_training := False\<rparr>)
      in case eval_batches cfg env (loader_batches (train_loader cfg)) (st1, []) of
           (st2, loss_buf) \<Rightarrow>
             (case reconstruct cfg env (test_loader cfg) st2 of
                Inl e \<Rightarrow> Inl e
              | Inr (pts, reconstructed_pl, st3) \<Rightarrow>
                  (let st4 = emit [SaveFig (test_png cfg ep) (cpu reconstructed_pl)] st3;
                       st5 = (if ep = 10 then emit [SaveFig (test_0_png cfg) (cpu pts)] st4
                              else st4)
                   in case reconstruct cfg env (train_loader cfg) st5 of
                        Inl e \<Rightarrow> Inl e
                      | Inr (pts', reconstructed_pl', st6) \<Rightarrow>
                          (let st7 = emit [SaveFig (train_png cfg ep) (cpu reconstructed_pl'),
                                           SaveFig (train_origin_png cfg ep) (cpu pts')] st6;
                               st8 = emit [SetMode True] (st7\<lparr>model_training := True\<rparr>)
                           in Inr (\<lparr>res_loss = np_mean loss_buf\<rparr>, st8)))))"

subsection \<open>\<^verbatim>\<open>train\<close>\<close>

text \<open>
  One iteration of the epoch loop of \<^verbatim>\<open>train\<close>, on the trainer and the locals. Python's
  \<^verbatim>\<open>%\<close> raises on a zero modulus and otherwise agrees with \<open>mod\<close> on \<open>int\<close>.
\<close>

definition train_body ::
  "config \<Rightarrow> 'm env \<Rightarrow> int \<Rightarrow> 'm trainer \<times> locals \<Rightarrow> error + ('m trainer \<times> locals)" where
  "train_body cfg env ep s =
     (case s of
        (st, lc) \<Rightarrow>
          (case train_epoch cfg env ep st of
             Inl e \<Rightarrow> Inl e
           | Inr st1 \<Rightarrow>
               (case (if (ep + 1) mod 10 = 0 \<or> ep = 0
                      then (case evaluate cfg env (ep + 1) st1 of
                              Inl e \<Rightarrow> Inl e
                            | Inr (r, st2) \<Rightarrow>
                                if np_less (res_loss r) (best_loss lc)
                                then Inr (snapshot cfg (TagStr ''best'') st2,
                                          \<lparr>best_loss = res_loss r, res = Some r\<rparr>)
                                else Inr (st2, lc\<lparr>res := Some r\<rparr>))
                      else Inr (st1, lc)) of
                  Inl e \<Rightarrow> Inl e
                | Inr (st3, lc3) \<Rightarrow>
                    if scheduler_interval cfg = 0 then Inl ZeroDivisionError
                    else
                      (let st4 = (if ep mod scheduler_interval cfg = 0
                                  then scheduler_step st3 else st3)
                       in if snapshot_interval cfg = 0 then Inl ZeroDivisionError
                          else
                            (let st5 = (if (ep + 1) mod snapshot_interval cfg = 0
                                        then snapshot cfg (TagInt (ep + 1)) st4 else st4)
                             in if writer cfg
                                then (case train_hist st5 of
                                        None \<Rightarrow> Inl AttributeError
                                      | Some h \<Rightarrow>
                                          if hist_loss h = [] then Inl IndexError
                                          else (case res lc3 of
                                                  None \<Rightarrow> Inl UnboundLocalError
                                                | Some r \<Rightarrow>
                                                    Inr (emit [AddScalar ''Train Loss'' (last (hist_loss h)) ep,
                                                               AddScalar ''Learning Rate'' (Fin (get_lr env st5)) ep,
                                                               AddScalar ''Test Loss'' (res_loss r) ep] st5,
                                                         lc3)))
                                else Inr (st5, lc3))))))"

fun train_loop ::
  "config \<Rightarrow> 'm env \<Rightarrow> int list \<Rightarrow> 'm trainer \<times> locals \<Rightarrow> error + ('m trainer \<times> locals)" where
  "train_loop cfg env [] s = Inr s"
| "train_loop cfg env (ep # eps) s =
     (case train_body cfg env ep s of
        Inl e \<Rightarrow> Inl e
      | Inr s' \<Rightarrow> train_loop cfg env eps s')"

text \<open>The statements of \<^verbatim>\<open>train\<close> before the loop, and those after it.\<close>

definition train_begin :: "'m env \<Rightarrow> 'm trainer \<Rightarrow> real \<times> 'm trainer \<times> locals" where
  "train_begin env st =
     (let st1 = emit [Print MsgTrainingStart]
                  (st\<lparr>train_hist := Some \<lparr>hist_loss = [], per_epoch_time = [], total_time = []\<rparr>\<rparr>)
      in case time_now env st1 of
           (start_time, st2) \<Rightarrow>
             (start_time,
              emit [SetMode True] (st2\<lparr>model_training := True\<rparr>),
              \<lparr>best_loss = Fin 1000000000, res = None\<rparr>))"

definition train_end :: "config \<Rightarrow> 'm env \<Rightarrow> real \<Rightarrow> 'm trainer \<Rightarrow> error + 'm trainer" where
  "train_end cfg env start_time st =
     (case time_now env st of
        (t, st1) \<Rightarrow>
          (case train_hist st1 of
             None \<Rightarrow> Inl AttributeError
           | Some h \<Rightarrow>
               (let h' = h\<lparr>total_time := total_time h @ [t - start_time]\<rparr>
                in Inr (emit [Print (MsgAverage (np_mean (map Fin (per_epoch_time h')))
                                       (epoch cfg) (hd (total_time h'))),
                              Print MsgFinish]
                          (st1\<lparr>train_hist := Some h'\<rparr>)))))"

definition train :: "config \<Rightarrow> 'm env \<Rightarrow> 'm trainer \<Rightarrow> error + 'm trainer" where
  "train cfg env st =
     (case train_begin env st of
        (start_time, st0, lc0) \<Rightarrow>
          (case train_loop cfg env [0..epoch cfg - 1] (st0, lc0) of
             Inl e \<Rightarrow> Inl e
           | Inr (st1, lc1) \<Rightarrow> train_end cfg env start_time st1))"

section \<open>Observing a run\<close>

text \<open>A call returns normally.\<close>

definition completes :: "error + 'a \<Rightarrow> bool" where
  "completes r = (case r of Inl _ \<Rightarrow> False | Inr _ \<Rightarrow> True)"

text \<open>The effects added between two states of the same trainer.\<close>

definition new_events :: "'m trainer \<Rightarrow> 'm trainer \<Rightarrow> 'm event list" where
  "new_events st st' = drop (length (trace st)) (trace st')"

text \<open>
  The trainer and the locals of \<^verbatim>\<open>train\<close> when the iteration with loop index \<open>e\<close>
  starts: the statements before the loop, then the iterations \<open>0, \<dots>, e - 1\<close>.
\<close>

definition state_before ::
  "config \<Rightarrow> 'm env \<Rightarrow> 'm trainer \<Rightarrow> int \<Rightarrow> error + ('m trainer \<times> locals)" where
  "state_before cfg env st e =
     (case train_begin env st of
        (start_time, st0, lc0) \<Rightarrow> train_loop cfg env [0..e - 1] (st0, lc0))"

text \<open>The states around iteration \<open>e\<close> of a run of \<^verbatim>\<open>train\<close>, when the run gets through it.\<close>

definition iteration ::
  "config \<Rightarrow> 'm env \<Rightarrow> 'm trainer \<Rightarrow> int \<Rightarrow>
   (('m trainer \<times> locals) \<times> ('m trainer \<times> locals)) option" where
  "iteration cfg env st e =
     (case state_before cfg env st e of
        Inl _ \<Rightarrow> None
      | Inr s \<Rightarrow> (case train_body cfg env e s of Inl _ \<Rightarrow> None | Inr s' \<Rightarrow> Some (s, s')))"

text \<open>The effects of iteration \<open>e\<close> of a run of \<^verbatim>\<open>train\<close>.\<close>

definition iter_events ::
  "config \<Rightarrow> 'm env \<Rightarrow> 'm trainer \<Rightarrow> int \<Rightarrow> 'm event list option" where
  "iter_events cfg env st e =
     (case iteration cfg env st e of
        None \<Rightarrow> None
      | Some (s, s') \<Rightarrow> Some (new_events (fst s) (fst s')))"

text \<open>The value of \<^verbatim>\<open>res['loss']\<close> when iteration \<open>e\<close> of a run ends.\<close>

definition loss_after :: "config \<Rightarrow> 'm env \<Rightarrow> 'm trainer \<Rightarrow> int \<Rightarrow> npfloat option" where
  "loss_after cfg env st e =
     (case iteration cfg env st e of
        None \<Rightarrow> None
      | Some (s, s') \<Rightarrow> map_option res_loss (res (snd s')))"

text \<open>The effects of a pass over the batches: calls into the network and the optimizer and
  progress lines, and for the loop of \<^verbatim>\<open>evaluate\<close> the modes the calls are made in.\<close>

fun step_event :: "'m event \<Rightarrow> bool" where
  "step_event (Print _) = True"
| "step_event ZeroGrad = True"
| "step_event (Forward _ _ _) = True"
| "step_event (GetLoss _ _ _) = True"
| "step_event Backward = True"
| "step_event OptimizerStep = True"
| "step_event _ = False"

fun pass_event :: "bool \<Rightarrow> bool \<Rightarrow> 'm event \<Rightarrow> bool" where
  "pass_event training grad (Forward _ t g) = (t = training \<and> g = grad)"
| "pass_event training grad (GetLoss _ _ g) = (g = grad)"
| "pass_event training grad _ = False"

text \<open>The paths of the figures saved, in order.\<close>

fun saved_figures :: "'m event list \<Rightarrow> string list" where
  "saved_figures [] = []"
| "saved_figures (SaveFig p _ # evs) = p # saved_figures evs"
| "saved_figures (_ # evs) = saved_figures evs"

text \<open>The figures saved, in order: the path and the points drawn in the figure.\<close>

fun figures :: "'m event list \<Rightarrow> (string \<times> tensor) list" where
  "figures [] = []"
| "figures (SaveFig p t # evs) = (p, t) # figures evs"
| "figures (_ # evs) = figures evs"

text \<open>A sample as the visualisation blocks hold it after \<^verbatim>\<open>if self.gpu_mode: pts = pts.cuda()\<close>.\<close>

definition on_device :: "config \<Rightarrow> tensor \<Rightarrow> tensor" where
  "on_device cfg t = (if gpu_mode cfg then cuda t else t)"

text \<open>The paths of the checkpoints written with \<^verbatim>\<open>torch.save\<close>, in order.\<close>

fun saved_models :: "'m event list \<Rightarrow> string list" where
  "saved_models [] = []"
| "saved_models (TorchSave p _ # evs) = p # saved_models evs"
| "saved_models (_ # evs) = saved_models evs"

text \<open>The modes of the forward passes and loss computations, in order: for a forward
  pass the train/eval mode and the gradient mode, for a loss computation the gradient mode.\<close>

fun is_model_call :: "'m event \<Rightarrow> bool" where
  "is_model_call (Forward _ _ _) = True"
| "is_model_call (GetLoss _ _ _) = True"
| "is_model_call _ = False"

text \<open>The effects of one call of \<^verbatim>\<open>evaluate\<close>, the loss it returns, and the effects of
  a whole run of \<^verbatim>\<open>train\<close>, when the call returns.\<close>

definition eval_events :: "config \<Rightarrow> 'm env \<Rightarrow> int \<Rightarrow> 'm trainer \<Rightarrow> 'm event list option" where
  "eval_events cfg env ep st =
     (case evaluate cfg env ep st of Inl _ \<Rightarrow> None | Inr (r, st') \<Rightarrow> Some (new_events st st'))"

definition eval_loss :: "config \<Rightarrow> 'm env \<Rightarrow> int \<Rightarrow> 'm trainer \<Rightarrow> npfloat option" where
  "eval_loss cfg env ep st =
     (case evaluate cfg env ep st of Inl _ \<Rightarrow> None | Inr (r, st') \<Rightarrow> Some (res_loss r))"

definition eval_state :: "config \<Rightarrow> 'm env \<Rightarrow> int \<Rightarrow> 'm trainer \<Rightarrow> 'm trainer option" where
  "eval_state cfg env ep st =
     (case evaluate cfg env ep st of Inl _ \<Rightarrow> None | Inr (r, st') \<Rightarrow> Some st')"

definition run_events :: "config \<Rightarrow> 'm env \<Rightarrow> 'm trainer \<Rightarrow> 'm event list option" where
  "run_events cfg env st =
     (case train cfg env st of Inl _ \<Rightarrow> None | Inr st' \<Rightarrow> Some (new_events st st'))"

text \<open>\<^verbatim>\<open>self.train_hist\<close> when a run of \<^verbatim>\<open>train\<close> has returned.\<close>

definition final_hist :: "config \<Rightarrow> 'm env \<Rightarrow> 'm trainer \<Rightarrow> history option" where
  "final_hist cfg env st =
     (case train cfg env st of Inl _ \<Rightarrow> None | Inr st' \<Rightarrow> train_hist st')"

text \<open>The number of calls of \<^verbatim>\<open>evaluate\<close> in a list of effects: \<^verbatim>\<open>self.model.eval()\<close> is
  the first statement of \<^verbatim>\<open>evaluate\<close> and occurs nowhere else.\<close>

fun evaluations :: "'m event list \<Rightarrow> nat" where
  "evaluations [] = 0"
| "evaluations (SetMode False # evs) = Suc (evaluations evs)"
| "evaluations (_ # evs) = evaluations evs"

text \<open>The mean loss, in eval mode, of the network with parameters \<open>m\<close> over one pass of
  a loader.\<close>

definition loader_mean_loss :: "config \<Rightarrow> 'm env \<Rightarrow> 'm \<Rightarrow> loader \<Rightarrow> npfloat" where
  "loader_mean_loss cfg env m ld =
     np_mean (map (\<lambda>b. get_loss env m (if gpu_mode cfg then cuda (fst b) else fst b)
                          (forward env m False (if gpu_mode cfg then cuda (fst b) else fst b)))
                (loader_batches ld))"

text \<open>The kinds of effect \<^verbatim>\<open>evaluate\<close> has.\<close>

fun eval_event :: "'m event \<Rightarrow> bool" where
  "eval_event (SetMode _) = True"
| "eval_event (Forward _ _ _) = True"
| "eval_event (GetLoss _ _ _) = True"
| "eval_event (SaveFig _ _) = True"
| "eval_event _ = False"

section \<open>The loop body in three parts\<close>

text \<open>
  For the proofs the body of the epoch loop is read as three statements in sequence:
  \<^verbatim>\<open>train_epoch\<close>, the guarded evaluation with the best checkpoint, and the rest
  (scheduler, numbered checkpoint, scalars). The two definitions below repeat the text of
  \<open>train_body\<close>; lemma \<open>train_body_parts\<close> shows that their sequence is \<open>train_body\<close>.
\<close>

definition eval_part ::
  "config \<Rightarrow> 'm env \<Rightarrow> int \<Rightarrow> 'm trainer \<times> locals \<Rightarrow> error + ('m trainer \<times> locals)" where
  "eval_part cfg env ep s = (case s of (st1, lc) \<Rightarrow>
     (if (ep + 1) mod 10 = 0 \<or> ep = 0
                      then (case evaluate cfg env (ep + 1) st1 of
                              Inl e \<Rightarrow> Inl e
                            | Inr (r, st2) \<Rightarrow>
                                if np_less (res_loss r) (best_loss lc)
                                then Inr (snapshot cfg (TagStr ''best'') st2,
                                          \<lparr>best_loss = res_loss r, res = Some r\<rparr>)
                                else Inr (st2, lc\<lparr>res := Some r\<rparr>))
                      else Inr (st1, lc)))"

definition tail_part ::
  "config \<Rightarrow> 'm env \<Rightarrow> int \<Rightarrow> 'm trainer \<times> locals \<Rightarrow> error + ('m trainer \<times> locals)" where
  "tail_part cfg env ep s = (case s of (st3, lc3) \<Rightarrow>
                    if scheduler_interval cfg = 0 then Inl ZeroDivisionError
                    else
                      (let st4 = (if ep mod scheduler_interval cfg = 0
                                  then scheduler_step st3 else st3)
                       in if snapshot_interval cfg = 0 then Inl ZeroDivisionError
                          else
                            (let st5 = (if (ep + 1) mod snapshot_interval cfg = 0
                                        then snapshot cfg (TagInt (ep + 1)) st4 else st4)
                             in if writer cfg
                                then (case train_hist st5 of
                                        None \<Rightarrow> Inl AttributeError
                                      | Some h \<Rightarrow>
                                          if hist_loss h = [] then Inl IndexError
                                          else (case res lc3 of
                                                  None \<Rightarrow> Inl UnboundLocalError
                                                | Some r \<Rightarrow>
                                                    Inr (emit [AddScalar ''Train Loss'' (last (hist_loss h)) ep,
                                                               AddScalar ''Learning Rate'' (Fin (get_lr env st5)) ep,
                                                               AddScalar ''Test Loss'' (res_loss r) ep] st5,
                                                         lc3)))
                                else Inr (st5, lc3))))"

text \<open>The effects of a best checkpoint, and those of the last part of an iteration that
  enters it with trainer \<open>st3\<close> and ends with locals \<open>lc3\<close>.\<close>

definition best_events :: "config \<Rightarrow> 'm \<Rightarrow> 'm event list" where
  "best_events cfg p =
     [TorchSave (snapshot_path cfg (TagStr ''best'')) p,
      Print (MsgSaveModel (snapshot_path cfg (TagStr ''best'')))]"

definition tail_events :: "config \<Rightarrow> 'm env \<Rightarrow> int \<Rightarrow> 'm trainer \<Rightarrow> locals \<Rightarrow> 'm event list" where
  "tail_events cfg env ep st3 lc3 =
     (if ep mod scheduler_interval cfg = 0 then [SchedulerStep] else []) @
     (if (ep + 1) mod snapshot_interval cfg = 0
      then [TorchSave (snapshot_path cfg (TagInt (ep + 1))) (model_params st3),
            Print (MsgSaveModel (snapshot_path cfg (TagInt (ep + 1))))]
      else []) @
     (if writer cfg
      then [AddScalar ''Train Loss'' (last (hist_loss (the (train_hist st3)))) ep,
            AddScalar ''Learning Rate''
              (Fin (lr_schedule env
                 (if ep mod scheduler_interval cfg = 0 then Suc (sched_steps st3) else sched_steps st3))) ep,
            AddScalar ''Test Loss'' (res_loss (the (res lc3))) ep]
      else [])"

section \<open>A small run\<close>

text \<open>
  A concrete trainer for the examples: point clouds of 2048 points whose coordinates all
  equal \<open>c\<close>, loaders of one sample and one batch, a network that reproduces its input, a
  loss that reads the first coordinate of the input, a learning rate that halves at every
  scheduler step, a clock that advances by one at every reading. \<open>ex_config n c\<close> runs \<open>n\<close>
  epochs on training data of value \<open>c\<close> and test data of value \<open>5\<close>.
\<close>

definition ex_sample :: "real \<Rightarrow> tensor" where
  "ex_sample c = \<lparr>shape = [2048, 3], elems = (\<lambda>i. c), on_gpu = False\<rparr>"

definition ex_batch :: "real \<Rightarrow> tensor" where
  "ex_batch c = \<lparr>shape = [1, 2048, 3], elems = (\<lambda>i. c), on_gpu = False\<rparr>"

definition ex_loader :: "real \<Rightarrow> loader" where
  "ex_loader c = \<lparr>loader_dataset = [(ex_sample c, 0)], loader_batches = [(ex_batch c, 0)]\<rparr>"

text \<open>A loader whose samples are 1024 points of six coordinates.\<close>

definition ex_wide_loader :: "real \<Rightarrow> loader" where
  "ex_wide_loader c =
     \<lparr>loader_dataset = [(\<lparr>shape = [1024, 6], elems = (\<lambda>i. c), on_gpu = False\<rparr>, 0)],
      loader_batches = [(\<lparr>shape = [1, 1024, 6], elems = (\<lambda>i. c), on_gpu = False\<rparr>, 0)]\<rparr>"

definition ex_config :: "int \<Rightarrow> real \<Rightarrow> config" where
  "ex_config n c =
     \<lparr>epoch = n, num_points = 2048, batch_size = 1, dataset = ''shapenet'',
      save_dir = ''snapshot'', result_dir = ''results/'', gpu_mode = False, verbose = False,
      scheduler_interval = 2, snapshot_interval = 2, writer = True,
      train_loader = ex_loader c, test_loader = ex_loader 5\<rparr>"

definition ex_wide_config :: config where
  "ex_wide_config =
     (ex_config 1 1)\<lparr>train_loader := ex_wide_loader 1, test_loader := ex_wide_loader 5\<rparr>"

definition ex_env :: "nat env" where
  "ex_env =
     \<lparr>forward = (\<lambda>m training x. x),
      get_loss = (\<lambda>m x y. Fin (elems x 0)),
      optimize = (\<lambda>m lr x y. Suc m),
      lr_schedule = (\<lambda>k. 1 / 2 ^ k),
      clock = real\<rparr>"

definition ex_trainer :: "nat trainer" where
  "ex_trainer =
     \<lparr>model_params = 0, model_training = False, grad_enabled = True, sched_steps = 0,
      clock_ticks = 0, train_hist = None, trace = []\<rparr>"

section \<open>Facts about the methods\<close>

lemma emit_simps [simp]:
  "trace (emit evs st) = trace st @ evs"
  "model_params (emit evs st) = model_params st"
  "model_training (emit evs st) = model_training st"
  "grad_enabled (emit evs st) = grad_enabled st"
  "sched_steps (emit evs st) = sched_steps st"
  "clock_ticks (emit evs st) = clock_ticks st"
  "train_hist (emit evs st) = train_hist st"
  by (simp_all add: emit_def)

lemma train_batches_frame:
  "train_batches cfg env ep t0 nb it bs (st, buf) = (st', buf') \<Longrightarrow>
     (\<exists>evs. trace st' = trace st @ evs \<and> list_all step_event evs) \<and>
     train_hist st' = train_hist st \<and> sched_steps st' = sched_steps st \<and>
     model_training st' = model_training st \<and> grad_enabled st' = grad_enabled st"
proof (induction bs arbitrary: st buf it)
  case Nil
  then show ?case by simp
next
  case (Cons b bs)
  obtain pts0 lbl where b: "b = (pts0, lbl)" by (cases b)
  from Cons.prems show ?case
    unfolding b train_batches.simps Let_def
    by (auto dest!: Cons.IH split: prod.splits if_splits simp: time_now_def emit_def)
qed

lemma time_nowD:
  "time_now env st = (t, s) \<Longrightarrow> s = st\<lparr>clock_ticks := Suc (clock_ticks st)\<rparr>"
  by (auto simp: time_now_def)

lemma train_epoch_frame:
  assumes "train_epoch cfg env ep st = Inr st'"
  shows "\<exists>evs h x y.
           trace st' = trace st @ evs \<and> list_all step_event evs \<and>
           train_hist st = Some h \<and>
           train_hist st' = Some (h\<lparr>per_epoch_time := per_epoch_time h @ [y],
                                    hist_loss := hist_loss h @ [x]\<rparr>) \<and>
           sched_steps st' = sched_steps st \<and>
           model_training st' = model_training st \<and> grad_enabled st' = grad_enabled st"
proof -
  obtain t0 st1 where t: "time_now env st = (t0, st1)" by (cases "time_now env st")
  obtain st2 buf where b:
    "train_batches cfg env ep t0
       (num_batch_of (length (loader_dataset (train_loader cfg))) (batch_size cfg)) 0
       (loader_batches (train_loader cfg)) (st1, []) = (st2, buf)"
    by (cases "train_batches cfg env ep t0
       (num_batch_of (length (loader_dataset (train_loader cfg))) (batch_size cfg)) 0
       (loader_batches (train_loader cfg)) (st1, [])")
  obtain t1 st3 where t': "time_now env st2 = (t1, st3)" by (cases "time_now env st2")
  note fr = train_batches_frame [OF b]
  from fr obtain evs where evs: "trace st2 = trace st1 @ evs" "list_all step_event evs"
    by blast
  obtain h where h: "train_hist st3 = Some h"
    using assms by (auto simp: train_epoch_def t b t' Let_def split: if_splits option.splits)
  have st': "st' = emit [Print (MsgEpoch (ep + 1) (np_mean buf) (t1 - t0))]
                     (st3\<lparr>train_hist := Some (h\<lparr>per_epoch_time := per_epoch_time h @ [t1 - t0],
                                                 hist_loss := hist_loss h @ [np_mean buf]\<rparr>)\<rparr>)"
    using assms by (auto simp: train_epoch_def t b t' h Let_def split: if_splits)
  have "trace st' = trace st @ (evs @ [Print (MsgEpoch (ep + 1) (np_mean buf) (t1 - t0))])"
    by (simp add: st' time_nowD [OF t'] evs(1) time_nowD [OF t])
  moreover have "list_all step_event (evs @ [Print (MsgEpoch (ep + 1) (np_mean buf) (t1 - t0))])"
    using evs(2) by simp
  moreover have "train_hist st = Some h"
    using h fr by (simp add: time_nowD [OF t'] time_nowD [OF t])
  moreover have "sched_steps st' = sched_steps st" "model_training st' = model_training st"
    "grad_enabled st' = grad_enabled st"
    using fr by (simp_all add: st' time_nowD [OF t'] time_nowD [OF t])
  moreover have "train_hist st' = Some (h\<lparr>per_epoch_time := per_epoch_time h @ [t1 - t0],
                                    hist_loss := hist_loss h @ [np_mean buf]\<rparr>)"
    by (simp add: st')
  ultimately show ?thesis by blast
qed

lemma eval_batches_frame:
  "eval_batches cfg env bs (st, buf) = (st', buf') \<Longrightarrow>
     (\<exists>evs. trace st' = trace st @ evs \<and>
            list_all (pass_event (model_training st) (grad_enabled st)) evs) \<and>
     train_hist st' = train_hist st \<and> sched_steps st' = sched_steps st \<and>
     model_training st' = model_training st \<and> grad_enabled st' = grad_enabled st \<and>
     model_params st' = model_params st \<and> clock_ticks st' = clock_ticks st"
proof (induction bs arbitrary: st buf)
  case Nil
  then show ?case by simp
next
  case (Cons b bs)
  obtain pts0 lbl where b: "b = (pts0, lbl)" by (cases b)
  from Cons.prems show ?case
    unfolding b eval_batches.simps Let_def
    by (auto dest!: Cons.IH)
qed

lemma eval_batches_losses:
  "eval_batches cfg env bs (st, buf) = (st', buf') \<Longrightarrow>
     buf' = buf @ map (\<lambda>b. get_loss env (model_params st)
                          (if gpu_mode cfg then cuda (fst b) else fst b)
                          (forward env (model_params st) (model_training st)
                             (if gpu_mode cfg then cuda (fst b) else fst b))) bs"
proof (induction bs arbitrary: st buf)
  case Nil
  then show ?case by simp
next
  case (Cons b bs)
  obtain pts0 lbl where b: "b = (pts0, lbl)" by (cases b)
  from Cons.prems show ?case
    unfolding b eval_batches.simps Let_def
    by (auto dest!: Cons.IH)
qed

lemma reconstruct_Inr:
  assumes "reconstruct cfg env ld st = Inr (pts, rec, st')"
  shows "\<exists>pts0 lbl rest v.
           loader_dataset ld = (pts0, lbl) # rest \<and>
           numel pts0 = 2048 * 3 \<and>
           st' = emit [Forward v (model_training st) (grad_enabled st)] st"
  using assms unfolding reconstruct_def Let_def
  by (auto simp: view_def numel_def cuda_def split: list.splits sum.splits if_splits)

lemma sum_case_InrD:
  "(case x of Inl e \<Rightarrow> Inl e | Inr y \<Rightarrow> f y) = Inr z \<Longrightarrow> \<exists>y. x = Inr y \<and> f y = Inr z"
  by (cases x) auto

lemma evaluate_Inr:
  assumes "evaluate cfg env ep st = Inr (r, st')"
  shows "\<exists>evs v1 p1 r1 v2 p2 r2.
           trace st' = trace st @ [SetMode False] @ evs @
             [Forward v1 False (grad_enabled st), SaveFig (test_png cfg ep) r1] @
             (if ep = 10 then [SaveFig (test_0_png cfg) p1] else []) @
             [Forward v2 False (grad_enabled st),
              SaveFig (train_png cfg ep) r2,
              SaveFig (train_origin_png cfg ep) p2,
              SetMode True] \<and>
           list_all (pass_event False (grad_enabled st)) evs"
    and "train_hist st' = train_hist st"
    and "sched_steps st' = sched_steps st"
    and "grad_enabled st' = grad_enabled st"
    and "model_params st' = model_params st"
    and "model_training st'"
    and "res_loss r = np_mean (map (\<lambda>b. get_loss env (model_params st)
                          (if gpu_mode cfg then cuda (fst b) else fst b)
                          (forward env (model_params st) False
                             (if gpu_mode cfg then cuda (fst b) else fst b)))
                        (loader_batches (train_loader cfg)))"
proof -
  define st1 where "st1 = emit [SetMode False] (st\<lparr>model_training := False\<rparr>)"
  obtain st2 buf where b:
    "eval_batches cfg env (loader_batches (train_loader cfg)) (st1, []) = (st2, buf)"
    by (cases "eval_batches cfg env (loader_batches (train_loader cfg)) (st1, [])")
  note fr = eval_batches_frame [OF b]
  note ls = eval_batches_losses [OF b]
  from fr obtain evs where evs: "trace st2 = trace st1 @ evs"
    "list_all (pass_event (model_training st1) (grad_enabled st1)) evs" by blast
  have ev: "evaluate cfg env ep st =
     (case reconstruct cfg env (test_loader cfg) st2 of
                Inl e \<Rightarrow> Inl e
              | Inr (pts, reconstructed_pl, st3) \<Rightarrow>
                  (let st4 = emit [SaveFig (test_png cfg ep) (cpu reconstructed_pl)] st3;
                       st5 = (if ep = 10 then emit [SaveFig (test_0_png cfg) (cpu pts)] st4
                              else st4)
                   in case reconstruct cfg env (train_loader cfg) st5 of
                        Inl e \<Rightarrow> Inl e
                      | Inr (pts', reconstructed_pl', st6) \<Rightarrow>
                          (let st7 = emit [SaveFig (train_png cfg ep) (cpu reconstructed_pl'),
                                           SaveFig (train_origin_png cfg ep) (cpu pts')] st6;
                               st8 = emit [SetMode True] (st7\<lparr>model_training := True\<rparr>)
                           in Inr (\<lparr>res_loss = np_mean buf\<rparr>, st8))))"
    unfolding evaluate_def Let_def st1_def [symmetric] b by simp
  from assms [unfolded ev] obtain y1 where y1:
    "reconstruct cfg env (test_loader cfg) st2 = Inr y1"
    by (auto dest: sum_case_InrD)
  obtain p1 r1 st3 where y1': "y1 = (p1, r1, st3)" by (cases y1)
  note rc1 = y1 [unfolded y1']
  define st5 where "st5 = (if ep = 10
       then emit [SaveFig (test_0_png cfg) (cpu p1)] (emit [SaveFig (test_png cfg ep) (cpu r1)] st3)
       else emit [SaveFig (test_png cfg ep) (cpu r1)] st3)"
  have ev2: "(case reconstruct cfg env (train_loader cfg) st5 of
                        Inl e \<Rightarrow> Inl e
                      | Inr (pts', reconstructed_pl', st6) \<Rightarrow>
                          Inr (\<lparr>res_loss = np_mean buf\<rparr>,
                               emit [SetMode True]
                                 ((emit [SaveFig (train_png cfg ep) (cpu reconstructed_pl'),
                                         SaveFig (train_origin_png cfg ep) (cpu pts')] st6)
                                    \<lparr>model_training := True\<rparr>))) = Inr (r, st')"
    using assms unfolding ev rc1 Let_def st5_def by (simp split del: if_split)
  from ev2 obtain y2 where y2: "reconstruct cfg env (train_loader cfg) st5 = Inr y2"
    by (auto dest: sum_case_InrD)
  obtain p2 r2 st6 where y2': "y2 = (p2, r2, st6)" by (cases y2)
  note rc2 = y2 [unfolded y2']
  have st': "st' = emit [SetMode True]
       ((emit [SaveFig (train_png cfg ep) (cpu r2),
               SaveFig (train_origin_png cfg ep) (cpu p2)] st6)
          \<lparr>model_training := True\<rparr>)"
    and r: "r = \<lparr>res_loss = np_mean buf\<rparr>"
    using ev2 unfolding rc2 by simp_all
  from reconstruct_Inr [OF rc1] obtain v1 where
    st3: "st3 = emit [Forward v1 (model_training st2) (grad_enabled st2)] st2" by blast
  from reconstruct_Inr [OF rc2] obtain v2 where
    st6: "st6 = emit [Forward v2 (model_training st5) (grad_enabled st5)] st5" by blast
  have m1: "model_training st1 = False" "grad_enabled st1 = grad_enabled st"
    "trace st1 = trace st @ [SetMode False]" "train_hist st1 = train_hist st"
    "sched_steps st1 = sched_steps st" "model_params st1 = model_params st"
    by (simp_all add: st1_def)
  have "trace st' = trace st @ [SetMode False] @ evs @
             [Forward v1 False (grad_enabled st), SaveFig (test_png cfg ep) (cpu r1)] @
             (if ep = 10 then [SaveFig (test_0_png cfg) (cpu p1)] else []) @
             [Forward v2 False (grad_enabled st),
              SaveFig (train_png cfg ep) (cpu r2),
              SaveFig (train_origin_png cfg ep) (cpu p2),
              SetMode True]"
    using fr by (simp add: st' st6 st5_def st3 evs(1) m1)
  moreover have "list_all (pass_event False (grad_enabled st)) evs"
    using evs(2) by (simp add: m1)
  ultimately show "\<exists>evs v1 p1 r1 v2 p2 r2.
           trace st' = trace st @ [SetMode False] @ evs @
             [Forward v1 False (grad_enabled st), SaveFig (test_png cfg ep) r1] @
             (if ep = 10 then [SaveFig (test_0_png cfg) p1] else []) @
             [Forward v2 False (grad_enabled st),
              SaveFig (train_png cfg ep) r2,
              SaveFig (train_origin_png cfg ep) p2,
              SetMode True] \<and>
           list_all (pass_event False (grad_enabled st)) evs"
    by blast
  show "train_hist st' = train_hist st" "sched_steps st' = sched_steps st"
    "grad_enabled st' = grad_enabled st" "model_params st' = model_params st"
    "model_training st'"
    using fr by (simp_all add: st' st6 st5_def st3 m1)
  show "res_loss r = np_mean (map (\<lambda>b. get_loss env (model_params st)
                          (if gpu_mode cfg then cuda (fst b) else fst b)
                          (forward env (model_params st) False
                             (if gpu_mode cfg then cuda (fst b) else fst b)))
                        (loader_batches (train_loader cfg)))"
    using ls by (simp add: r m1)
qed

lemma pass_event_eval: "pass_event t g ev \<Longrightarrow> eval_event ev"
  by (cases ev) auto

lemma evaluate_events:
  assumes "evaluate cfg env ep st = Inr (r, st')"
  shows "\<exists>evs. trace st' = trace st @ SetMode False # evs \<and> list_all eval_event evs"
proof -
  from evaluate_Inr(1) [OF assms] obtain evs v1 p1 r1 v2 p2 r2 where
    t: "trace st' = trace st @ [SetMode False] @ evs @
             [Forward v1 False (grad_enabled st), SaveFig (test_png cfg ep) r1] @
             (if ep = 10 then [SaveFig (test_0_png cfg) p1] else []) @
             [Forward v2 False (grad_enabled st),
              SaveFig (train_png cfg ep) r2,
              SaveFig (train_origin_png cfg ep) p2,
              SetMode True]"
    and p: "list_all (pass_event False (grad_enabled st)) evs"
    by blast
  have "list_all eval_event evs"
    using p by (auto simp: list_all_iff intro: pass_event_eval)
  then show ?thesis using t by auto
qed

lemma train_body_parts:
  "train_body cfg env ep (st, lc) =
     (case train_epoch cfg env ep st of
        Inl e \<Rightarrow> Inl e
      | Inr st1 \<Rightarrow>
          (case eval_part cfg env ep (st1, lc) of
             Inl e \<Rightarrow> Inl e
           | Inr s3 \<Rightarrow> tail_part cfg env ep s3))"
  unfolding train_body_def eval_part_def tail_part_def
  by (simp split: sum.splits prod.splits)

lemma snapshot_simps [simp]:
  "trace (snapshot cfg t st) =
     trace st @ [TorchSave (snapshot_path cfg t) (model_params st),
                 Print (MsgSaveModel (snapshot_path cfg t))]"
  "train_hist (snapshot cfg t st) = train_hist st"
  "sched_steps (snapshot cfg t st) = sched_steps st"
  "model_params (snapshot cfg t st) = model_params st"
  "model_training (snapshot cfg t st) = model_training st"
  "grad_enabled (snapshot cfg t st) = grad_enabled st"
  by (simp_all add: snapshot_def)

lemma scheduler_step_simps [simp]:
  "trace (scheduler_step st) = trace st @ [SchedulerStep]"
  "train_hist (scheduler_step st) = train_hist st"
  "sched_steps (scheduler_step st) = Suc (sched_steps st)"
  "model_params (scheduler_step st) = model_params st"
  "model_training (scheduler_step st) = model_training st"
  "grad_enabled (scheduler_step st) = grad_enabled st"
  by (simp_all add: scheduler_step_def)

lemma eval_part_skip:
  assumes "\<not> ((ep + 1) mod 10 = 0 \<or> ep = 0)"
  shows "eval_part cfg env ep (st1, lc) = Inr (st1, lc)"
  using assms by (simp add: eval_part_def)

lemma eval_part_run:
  assumes "(ep + 1) mod 10 = 0 \<or> ep = 0"
    and "eval_part cfg env ep (st1, lc) = Inr (st3, lc3)"
  shows "\<exists>r evs. res lc3 = Some r \<and>
           trace st3 = trace st1 @ SetMode False # evs @
             (if np_less (res_loss r) (best_loss lc) then best_events cfg (model_params st1) else []) \<and>
           list_all eval_event evs \<and>
           best_loss lc3 = (if np_less (res_loss r) (best_loss lc) then res_loss r else best_loss lc)"
    and "train_hist st3 = train_hist st1"
    and "sched_steps st3 = sched_steps st1"
    and "grad_enabled st3 = grad_enabled st1"
proof -
  have e: "(case evaluate cfg env (ep + 1) st1 of
                              Inl e \<Rightarrow> Inl e
                            | Inr (r, st2) \<Rightarrow>
                                if np_less (res_loss r) (best_loss lc)
                                then Inr (snapshot cfg (TagStr ''best'') st2,
                                          \<lparr>best_loss = res_loss r, res = Some r\<rparr>)
                                else Inr (st2, lc\<lparr>res := Some r\<rparr>)) = Inr (st3, lc3)"
    using assms by (simp add: eval_part_def)
  then obtain y where y: "evaluate cfg env (ep + 1) st1 = Inr y"
    by (auto dest: sum_case_InrD)
  obtain r st2 where y': "y = (r, st2)" by (cases y)
  note ev = y [unfolded y']
  from evaluate_events [OF ev] obtain evs where
    evs: "trace st2 = trace st1 @ SetMode False # evs" "list_all eval_event evs" by blast
  note fr = evaluate_Inr(2-5) [OF ev]
  have c: "(if np_less (res_loss r) (best_loss lc)
            then st3 = snapshot cfg (TagStr ''best'') st2 \<and> lc3 = \<lparr>best_loss = res_loss r, res = Some r\<rparr>
            else st3 = st2 \<and> lc3 = lc\<lparr>res := Some r\<rparr>)"
    using e unfolding ev by (simp split: if_splits)
  have "res lc3 = Some r" using c by (simp split: if_splits)
  moreover have "trace st3 = trace st1 @ SetMode False # evs @
             (if np_less (res_loss r) (best_loss lc) then best_events cfg (model_params st1) else [])"
    using c evs(1) fr by (simp add: best_events_def split: if_splits)
  moreover have "best_loss lc3 = (if np_less (res_loss r) (best_loss lc) then res_loss r else best_loss lc)"
    using c by (simp split: if_splits)
  ultimately show "\<exists>r evs. res lc3 = Some r \<and>
           trace st3 = trace st1 @ SetMode False # evs @
             (if np_less (res_loss r) (best_loss lc) then best_events cfg (model_params st1) else []) \<and>
           list_all eval_event evs \<and>
           best_loss lc3 = (if np_less (res_loss r) (best_loss lc) then res_loss r else best_loss lc)"
    using evs(2) by blast
  show "train_hist st3 = train_hist st1" "sched_steps st3 = sched_steps st1"
    "grad_enabled st3 = grad_enabled st1"
    using c fr by (simp_all split: if_splits)
qed

lemma tail_part_Inr:
  assumes "tail_part cfg env ep (st3, lc3) = Inr (st', lc')"
  shows "lc' = lc3"
    and "scheduler_interval cfg \<noteq> 0"
    and "snapshot_interval cfg \<noteq> 0"
    and "trace st' = trace st3 @ tail_events cfg env ep st3 lc3"
    and "train_hist st' = train_hist st3"
    and "writer cfg \<Longrightarrow> res lc3 \<noteq> None"
    and "grad_enabled st' = grad_enabled st3"
  using assms unfolding tail_part_def tail_events_def Let_def
  by (auto simp: get_lr_def split: if_splits option.splits)

lemma train_body_Inr:
  assumes "train_body cfg env ep (st, lc) = Inr (st', lc')"
  shows "\<exists>A B st3 h x y.
           trace st' = trace st @ A @ B @ tail_events cfg env ep st3 lc' \<and>
           list_all step_event A \<and>
           (if (ep + 1) mod 10 = 0 \<or> ep = 0
            then \<exists>r evs p. res lc' = Some r \<and>
                   B = SetMode False # evs @
                         (if np_less (res_loss r) (best_loss lc) then best_events cfg p else []) \<and>
                   list_all eval_event evs \<and>
                   best_loss lc' =
                     (if np_less (res_loss r) (best_loss lc) then res_loss r else best_loss lc)
            else B = [] \<and> lc' = lc) \<and>
           train_hist st = Some h \<and>
           train_hist st' = Some (h\<lparr>per_epoch_time := per_epoch_time h @ [y],
                                    hist_loss := hist_loss h @ [x]\<rparr>)"
    and "scheduler_interval cfg \<noteq> 0"
    and "snapshot_interval cfg \<noteq> 0"
    and "writer cfg \<Longrightarrow> res lc' \<noteq> None"
    and "grad_enabled st' = grad_enabled st"
proof -
  from assms [unfolded train_body_parts] obtain st1 where
    te: "train_epoch cfg env ep st = Inr st1"
    and r1: "(case eval_part cfg env ep (st1, lc) of
             Inl e \<Rightarrow> Inl e
           | Inr s3 \<Rightarrow> tail_part cfg env ep s3) = Inr (st', lc')"
    by (auto dest: sum_case_InrD)
  from r1 obtain s3 where ep: "eval_part cfg env ep (st1, lc) = Inr s3"
    and tp0: "tail_part cfg env ep s3 = Inr (st', lc')"
    by (auto dest: sum_case_InrD)
  obtain st3 lc3 where s3: "s3 = (st3, lc3)" by (cases s3)
  note ep = ep [unfolded s3] and tp = tp0 [unfolded s3]
  note tl = tail_part_Inr [OF tp]
  from train_epoch_frame [OF te] obtain A h x y where
    A: "trace st1 = trace st @ A" "list_all step_event A" "train_hist st = Some h"
       "train_hist st1 = Some (h\<lparr>per_epoch_time := per_epoch_time h @ [y],
                                    hist_loss := hist_loss h @ [x]\<rparr>)"
       "grad_enabled st1 = grad_enabled st"
    by blast
  have lc3: "lc3 = lc'" using tl(1) by simp
  show "scheduler_interval cfg \<noteq> 0" "snapshot_interval cfg \<noteq> 0" by (rule tl)+
  show "writer cfg \<Longrightarrow> res lc' \<noteq> None" using tl(6) lc3 by simp
  show "\<exists>A B st3 h x y.
           trace st' = trace st @ A @ B @ tail_events cfg env ep st3 lc' \<and>
           list_all step_event A \<and>
           (if (ep + 1) mod 10 = 0 \<or> ep = 0
            then \<exists>r evs p. res lc' = Some r \<and>
                   B = SetMode False # evs @
                         (if np_less (res_loss r) (best_loss lc) then best_events cfg p else []) \<and>
                   list_all eval_event evs \<and>
                   best_loss lc' =
                     (if np_less (res_loss r) (best_loss lc) then res_loss r else best_loss lc)
            else B = [] \<and> lc' = lc) \<and>
           train_hist st = Some h \<and>
           train_hist st' = Some (h\<lparr>per_epoch_time := per_epoch_time h @ [y],
                                    hist_loss := hist_loss h @ [x]\<rparr>)"
  proof (cases "(ep + 1) mod 10 = 0 \<or> ep = 0")
    case True
    from eval_part_run(1) [OF True ep] obtain r evs where
      e: "res lc3 = Some r"
         "trace st3 = trace st1 @ SetMode False # evs @
             (if np_less (res_loss r) (best_loss lc) then best_events cfg (model_params st1) else [])"
         "list_all eval_event evs"
         "best_loss lc3 = (if np_less (res_loss r) (best_loss lc) then res_loss r else best_loss lc)"
      by blast
    have h3: "train_hist st3 = train_hist st1" by (rule eval_part_run(2) [OF True ep])
    have "trace st' = trace st @ A @
            (SetMode False # evs @
             (if np_less (res_loss r) (best_loss lc) then best_events cfg (model_params st1) else [])) @
            tail_events cfg env ep st3 lc'"
      using tl(4) e(2) A(1) lc3 by simp
    moreover have "train_hist st' = Some (h\<lparr>per_epoch_time := per_epoch_time h @ [y],
                                    hist_loss := hist_loss h @ [x]\<rparr>)"
      using tl(5) h3 A(4) by simp
    ultimately show ?thesis
      using True A(2,3) e(1,3,4) lc3 by (intro exI conjI) (assumption | simp | blast)+
  next
    case False
    have s: "st3 = st1" "lc3 = lc" using ep eval_part_skip [OF False, of cfg env st1 lc] by simp_all
    have "trace st' = trace st @ A @ [] @ tail_events cfg env ep st3 lc'"
      using tl(4) A(1) s lc3 by simp
    moreover have "train_hist st' = Some (h\<lparr>per_epoch_time := per_epoch_time h @ [y],
                                    hist_loss := hist_loss h @ [x]\<rparr>)"
      using tl(5) s A(4) by simp
    ultimately show ?thesis
      using False A(2,3) s lc3 by (intro exI conjI) (assumption | simp)+
  qed
  show "grad_enabled st' = grad_enabled st"
  proof (cases "(ep + 1) mod 10 = 0 \<or> ep = 0")
    case True
    show ?thesis using tl(7) eval_part_run(4) [OF True ep] A(5) by simp
  next
    case False
    have s: "st3 = st1" using ep eval_part_skip [OF False, of cfg env st1 lc] by simp
    show ?thesis using tl(7) s A(5) by simp
  qed
qed

lemma train_loop_append:
  "train_loop cfg env (xs @ ys) s =
     (case train_loop cfg env xs s of Inl e \<Rightarrow> Inl e | Inr s' \<Rightarrow> train_loop cfg env ys s')"
  by (induction xs arbitrary: s) (auto split: sum.splits)

lemma state_before_Suc:
  assumes "0 \<le> e"
  shows "state_before cfg env st (e + 1) =
     (case state_before cfg env st e of Inl x \<Rightarrow> Inl x | Inr s \<Rightarrow> train_body cfg env e s)"
proof -
  have "[0..e + 1 - 1] = [0..e - 1] @ [e]"
    using assms upto_rec2 [of 0 e] by simp
  then show ?thesis
    unfolding state_before_def
    by (auto simp: train_loop_append split: prod.splits sum.splits)
qed

lemma state_before_mono:
  assumes "state_before cfg env st n = Inr s" "0 \<le> e" "e \<le> n"
  shows "\<exists>s'. state_before cfg env st e = Inr s'"
proof -
  have "[0..n - 1] = [0..e - 1] @ [e..n - 1]"
  proof (cases "e = n")
    case True
    then show ?thesis by simp
  next
    case False
    then show ?thesis using assms(2,3) upto_split1 [of 0 e "n - 1"] by simp
  qed
  then show ?thesis
    using assms(1) unfolding state_before_def
    by (auto simp: train_loop_append split: prod.splits sum.splits)
qed

lemma train_completes_state:
  assumes "completes (train cfg env st)"
  shows "\<exists>s. state_before cfg env st (epoch cfg) = Inr s"
  using assms unfolding completes_def train_def state_before_def
  by (auto split: prod.splits sum.splits)

lemma completes_iteration:
  assumes "completes (train cfg env st)" "0 \<le> e" "e < epoch cfg"
  shows "\<exists>s lc s' lc'. iteration cfg env st e = Some ((s, lc), (s', lc')) \<and>
           state_before cfg env st e = Inr (s, lc) \<and>
           train_body cfg env e (s, lc) = Inr (s', lc')"
proof -
  from train_completes_state [OF assms(1)] obtain sN where
    "state_before cfg env st (epoch cfg) = Inr sN" by blast
  from state_before_mono [OF this, of "e + 1"] assms obtain s1 where
    s1: "state_before cfg env st (e + 1) = Inr s1" by auto
  from s1 [unfolded state_before_Suc [OF assms(2)]] obtain s0 where
    s0: "state_before cfg env st e = Inr s0" "train_body cfg env e s0 = Inr s1"
    by (auto dest: sum_case_InrD)
  then show ?thesis
    by (cases s0; cases s1) (auto simp: iteration_def)
qed

lemma iterationD:
  assumes "iteration cfg env st e = Some ((s, lc), (s', lc'))"
  shows "state_before cfg env st e = Inr (s, lc)" "train_body cfg env e (s, lc) = Inr (s', lc')"
  using assms unfolding iteration_def by (auto split: sum.splits)

lemma iter_eventsD:
  assumes "iter_events cfg env st e = Some evs"
  shows "\<exists>s lc s' lc'. iteration cfg env st e = Some ((s, lc), (s', lc')) \<and>
           evs = new_events s s'"
  using assms unfolding iter_events_def by (auto split: option.splits)

lemma new_events_append: "trace st' = trace st @ evs \<Longrightarrow> new_events st st' = evs"
  by (simp add: new_events_def)

lemma step_event_not:
  assumes "list_all step_event A"
  shows "SetMode b \<notin> set A" "SchedulerStep \<notin> set A" "TorchSave p q \<notin> set A"
    "SaveFig p t \<notin> set A" "AddScalar n v i \<notin> set A"
  using assms by (auto simp: list_all_iff)

lemma eval_event_not:
  assumes "list_all eval_event A"
  shows "SchedulerStep \<notin> set A" "TorchSave p q \<notin> set A" "AddScalar n v i \<notin> set A"
  using assms by (auto simp: list_all_iff)

lemma digits_of_chars: "set (digits_of n) \<subseteq> set ''0123456789''"
proof (induction n rule: digits_of.induct)
  case (1 n)
  have nth: "\<And>k. k < 10 \<Longrightarrow> ''0123456789'' ! k \<in> set ''0123456789''"
    by (rule nth_mem) simp
  show ?case
  proof (cases "n < 10")
    case True
    then show ?thesis using nth [of n] by (subst digits_of.simps) simp
  next
    case False
    have "n mod 10 < 10" by simp
    from nth [OF this] 1 [OF False] False show ?thesis
      by (subst digits_of.simps) simp
  qed
qed

lemma str_int_chars: "set (str_int i) \<subseteq> insert CHR ''-'' (set ''0123456789'')"
proof (cases "i < 0")
  case True
  then have "str_int i = CHR ''-'' # digits_of (nat (- i))" by (simp add: str_int_def)
  then show ?thesis using digits_of_chars [of "nat (- i)"] by (simp add: subset_insertI2)
next
  case False
  then have "str_int i = digits_of (nat i)" by (simp add: str_int_def)
  then show ?thesis using digits_of_chars [of "nat i"] by (simp add: subset_insertI2)
qed

lemma str_int_not_best: "str_int i \<noteq> ''best''"
proof
  assume a: "str_int i = ''best''"
  have "CHR ''b'' \<in> set ''best''" by simp
  then have "CHR ''b'' \<in> set (str_int i)" unfolding a .
  then have "CHR ''b'' \<in> insert CHR ''-'' (set ''0123456789'')"
    using str_int_chars [of i] by (rule set_mp [rotated])
  then show False by simp
qed

lemma snapshot_path_best_neq:
  "snapshot_path cfg (TagStr ''best'') \<noteq> snapshot_path cfg (TagInt i)"
proof
  assume a: "snapshot_path cfg (TagStr ''best'') = snapshot_path cfg (TagInt i)"
  define pre where "pre = path_join (save_dir cfg) (dataset cfg) @ ''_''"
  define suf :: string where "suf = ''.pkl''"
  have l: "snapshot_path cfg (TagStr ''best'') = pre @ ''best'' @ suf"
    by (simp only: snapshot_path_def str_tag.simps pre_def suf_def append_assoc)
  have r: "snapshot_path cfg (TagInt i) = pre @ str_int i @ suf"
    by (simp only: snapshot_path_def str_tag.simps pre_def suf_def append_assoc)
  from a have "pre @ ''best'' @ suf = pre @ str_int i @ suf" unfolding l r .
  then have "''best'' = str_int i" by (simp only: same_append_eq append_same_eq)
  then have "str_int i = ''best''" by (rule sym)
  with str_int_not_best [of i] show False by (rule notE)
qed

lemma tail_events_members:
  "SetMode b \<notin> set (tail_events cfg env ep st3 lc3)"
  "SchedulerStep \<in> set (tail_events cfg env ep st3 lc3) \<longleftrightarrow> ep mod scheduler_interval cfg = 0"
  "TorchSave p q \<in> set (tail_events cfg env ep st3 lc3) \<longleftrightarrow>
     (ep + 1) mod snapshot_interval cfg = 0 \<and> p = snapshot_path cfg (TagInt (ep + 1)) \<and>
     q = model_params st3"
  by (auto simp: tail_events_def)

lemma best_events_members:
  "SetMode b \<notin> set (best_events cfg p)"
  "SchedulerStep \<notin> set (best_events cfg p)"
  "TorchSave x q \<in> set (best_events cfg p) \<longleftrightarrow>
     x = snapshot_path cfg (TagStr ''best'') \<and> q = p"
  by (auto simp: best_events_def)

lemma body_eval_marker:
  assumes "train_body cfg env ep (st, lc) = Inr (st', lc')"
  shows "SetMode False \<in> set (new_events st st') \<longleftrightarrow> ((ep + 1) mod 10 = 0 \<or> ep = 0)"
proof -
  from train_body_Inr(1) [OF assms] obtain A B st3 where
    t: "trace st' = trace st @ A @ B @ tail_events cfg env ep st3 lc'"
    and A: "list_all step_event A"
    and B: "if (ep + 1) mod 10 = 0 \<or> ep = 0
            then \<exists>r evs p. res lc' = Some r \<and>
                   B = SetMode False # evs @
                         (if np_less (res_loss r) (best_loss lc) then best_events cfg p else []) \<and>
                   list_all eval_event evs \<and>
                   best_loss lc' =
                     (if np_less (res_loss r) (best_loss lc) then res_loss r else best_loss lc)
            else B = [] \<and> lc' = lc"
    by blast
  have n: "new_events st st' = A @ B @ tail_events cfg env ep st3 lc'"
    using t by (rule new_events_append)
  show ?thesis
  proof (cases "(ep + 1) mod 10 = 0 \<or> ep = 0")
    case True
    from B have "\<exists>r evs p. res lc' = Some r \<and>
                   B = SetMode False # evs @
                         (if np_less (res_loss r) (best_loss lc) then best_events cfg p else []) \<and>
                   list_all eval_event evs \<and>
                   best_loss lc' =
                     (if np_less (res_loss r) (best_loss lc) then res_loss r else best_loss lc)"
      by (simp only: True if_True)
    then obtain evs C where "B = SetMode False # evs @ C" by (elim exE conjE) (rule that)
    then show ?thesis using True by (simp add: n)
  next
    case False
    with B have "B = []" by simp
    then show ?thesis
      using False step_event_not(1) [OF A] tail_events_members(1) [of False cfg env ep st3 lc']
      by (simp add: n)
  qed
qed

lemma body_scheduler_step:
  assumes "train_body cfg env ep (st, lc) = Inr (st', lc')"
  shows "SchedulerStep \<in> set (new_events st st') \<longleftrightarrow> ep mod scheduler_interval cfg = 0"
proof -
  from train_body_Inr(1) [OF assms] obtain A B st3 where
    t: "trace st' = trace st @ A @ B @ tail_events cfg env ep st3 lc'"
    and A: "list_all step_event A"
    and B: "if (ep + 1) mod 10 = 0 \<or> ep = 0
            then \<exists>r evs p. res lc' = Some r \<and>
                   B = SetMode False # evs @
                         (if np_less (res_loss r) (best_loss lc) then best_events cfg p else []) \<and>
                   list_all eval_event evs \<and>
                   best_loss lc' =
                     (if np_less (res_loss r) (best_loss lc) then res_loss r else best_loss lc)
            else B = [] \<and> lc' = lc"
    by blast
  have n: "new_events st st' = A @ B @ tail_events cfg env ep st3 lc'"
    using t by (rule new_events_append)
  have "SchedulerStep \<notin> set B"
  proof (cases "(ep + 1) mod 10 = 0 \<or> ep = 0")
    case True
    from B have "\<exists>r evs p. res lc' = Some r \<and>
                   B = SetMode False # evs @
                         (if np_less (res_loss r) (best_loss lc) then best_events cfg p else []) \<and>
                   list_all eval_event evs \<and>
                   best_loss lc' =
                     (if np_less (res_loss r) (best_loss lc) then res_loss r else best_loss lc)"
      by (simp only: True if_True)
    then obtain r :: result and evs p where b: "B = SetMode False # evs @
           (if np_less (res_loss r) (best_loss lc) then best_events cfg p else [])"
      and e: "list_all eval_event evs" by (elim exE conjE) (rule that)
    show ?thesis
      using eval_event_not(1) [OF e] best_events_members(2) [of cfg p] by (simp add: b)
  next
    case False
    with B show ?thesis by simp
  qed
  then show ?thesis
    using step_event_not(2) [OF A] tail_events_members(2) [of cfg env ep st3 lc']
    by (simp add: n)
qed

lemma body_snapshots:
  assumes "train_body cfg env ep (st, lc) = Inr (st', lc')"
  shows "(\<exists>q. TorchSave (snapshot_path cfg (TagInt (ep + 1))) q \<in> set (new_events st st')) \<longleftrightarrow>
           (ep + 1) mod snapshot_interval cfg = 0"
    and "(\<exists>q. TorchSave (snapshot_path cfg (TagStr ''best'')) q \<in> set (new_events st st')) \<longleftrightarrow>
           (((ep + 1) mod 10 = 0 \<or> ep = 0) \<and>
            (\<exists>r. res lc' = Some r \<and> np_less (res_loss r) (best_loss lc)))"
proof -
  from train_body_Inr(1) [OF assms] obtain A B st3 where
    t: "trace st' = trace st @ A @ B @ tail_events cfg env ep st3 lc'"
    and A: "list_all step_event A"
    and B: "if (ep + 1) mod 10 = 0 \<or> ep = 0
            then \<exists>r evs p. res lc' = Some r \<and>
                   B = SetMode False # evs @
                         (if np_less (res_loss r) (best_loss lc) then best_events cfg p else []) \<and>
                   list_all eval_event evs \<and>
                   best_loss lc' =
                     (if np_less (res_loss r) (best_loss lc) then res_loss r else best_loss lc)
            else B = [] \<and> lc' = lc"
    by blast
  have n: "new_events st st' = A @ B @ tail_events cfg env ep st3 lc'"
    using t by (rule new_events_append)
  have inA: "\<And>x q. TorchSave x q \<notin> set A" by (rule step_event_not(3) [OF A])
  have inB: "\<And>x q. TorchSave x q \<in> set B \<longleftrightarrow>
      ((ep + 1) mod 10 = 0 \<or> ep = 0) \<and> x = snapshot_path cfg (TagStr ''best'') \<and>
      (\<exists>r. res lc' = Some r \<and> np_less (res_loss r) (best_loss lc)) \<and> (\<exists>p. q = p \<and> TorchSave x q \<in> set B)"
  proof (cases "(ep + 1) mod 10 = 0 \<or> ep = 0")
    case True
    from B have "\<exists>r evs p. res lc' = Some r \<and>
                   B = SetMode False # evs @
                         (if np_less (res_loss r) (best_loss lc) then best_events cfg p else []) \<and>
                   list_all eval_event evs \<and>
                   best_loss lc' =
                     (if np_less (res_loss r) (best_loss lc) then res_loss r else best_loss lc)"
      by (simp only: True if_True)
    then obtain r evs p where b: "B = SetMode False # evs @
           (if np_less (res_loss r) (best_loss lc) then best_events cfg p else [])"
      and e: "list_all eval_event evs" and r: "res lc' = Some r" by (elim exE conjE) (rule that)
    fix x q
    show "TorchSave x q \<in> set B \<longleftrightarrow>
      ((ep + 1) mod 10 = 0 \<or> ep = 0) \<and> x = snapshot_path cfg (TagStr ''best'') \<and>
      (\<exists>r. res lc' = Some r \<and> np_less (res_loss r) (best_loss lc)) \<and> (\<exists>p. q = p \<and> TorchSave x q \<in> set B)"
      using eval_event_not(2) [OF e, of x q] best_events_members(3) [of x q cfg p] True r
      by (auto simp: b)
  next
    case False
    fix x q
    from False B show "TorchSave x q \<in> set B \<longleftrightarrow>
      ((ep + 1) mod 10 = 0 \<or> ep = 0) \<and> x = snapshot_path cfg (TagStr ''best'') \<and>
      (\<exists>r. res lc' = Some r \<and> np_less (res_loss r) (best_loss lc)) \<and> (\<exists>p. q = p \<and> TorchSave x q \<in> set B)"
      by simp
  qed
  have bestB: "((ep + 1) mod 10 = 0 \<or> ep = 0) \<Longrightarrow>
      res lc' = Some r \<Longrightarrow> np_less (res_loss r) (best_loss lc) \<Longrightarrow>
      \<exists>q. TorchSave (snapshot_path cfg (TagStr ''best'')) q \<in> set B" for r
  proof -
    assume g: "(ep + 1) mod 10 = 0 \<or> ep = 0" and r: "res lc' = Some r"
      and l: "np_less (res_loss r) (best_loss lc)"
    from B have "\<exists>r evs p. res lc' = Some r \<and>
                   B = SetMode False # evs @
                         (if np_less (res_loss r) (best_loss lc) then best_events cfg p else []) \<and>
                   list_all eval_event evs \<and>
                   best_loss lc' =
                     (if np_less (res_loss r) (best_loss lc) then res_loss r else best_loss lc)"
      by (simp only: g if_True)
    then obtain r' evs p where b: "B = SetMode False # evs @
           (if np_less (res_loss r') (best_loss lc) then best_events cfg p else [])"
      and r': "res lc' = Some r'" by (elim exE conjE) (rule that)
    from r r' have "r' = r" by simp
    then show ?thesis using l by (auto simp: b best_events_def)
  qed
  show "(\<exists>q. TorchSave (snapshot_path cfg (TagInt (ep + 1))) q \<in> set (new_events st st')) \<longleftrightarrow>
           (ep + 1) mod snapshot_interval cfg = 0"
    using inA inB [of "snapshot_path cfg (TagInt (ep + 1))"]
      snapshot_path_best_neq [of cfg "ep + 1"]
      tail_events_members(3) [of "snapshot_path cfg (TagInt (ep + 1))" _ cfg env ep st3 lc']
    by (auto simp: n)
  show "(\<exists>q. TorchSave (snapshot_path cfg (TagStr ''best'')) q \<in> set (new_events st st')) \<longleftrightarrow>
           (((ep + 1) mod 10 = 0 \<or> ep = 0) \<and>
            (\<exists>r. res lc' = Some r \<and> np_less (res_loss r) (best_loss lc)))"
    using inA inB [of "snapshot_path cfg (TagStr ''best'')"] bestB
      snapshot_path_best_neq [of cfg "ep + 1"]
      tail_events_members(3) [of "snapshot_path cfg (TagStr ''best'')" _ cfg env ep st3 lc']
    by (auto simp: n)
qed

lemmas run_defs =
  ex_sample_def ex_batch_def ex_loader_def ex_config_def ex_env_def ex_trainer_def
  train_def train_begin_def train_end_def train_body_def train_epoch_def evaluate_def
  reconstruct_def view_def numel_def item0_def cpu_def cuda_def emit_def time_now_def
  get_lr_def scheduler_step_def snapshot_def snapshot_path_def path_join_def str_int_def
  digits_of.simps np_mean_def num_batch_of_def Let_def completes_def state_before_def
  iteration_def iter_events_def new_events_def test_png_def test_0_png_def train_png_def
  train_origin_png_def loss_after_def upto.simps

lemma train_loop_hist:
  "train_loop cfg env es (s, lc) = Inr (s', lc') \<Longrightarrow> train_hist s = Some h \<Longrightarrow>
     \<exists>h'. train_hist s' = Some h' \<and>
          length (hist_loss h') = length (hist_loss h) + length es \<and>
          length (per_epoch_time h') = length (per_epoch_time h) + length es \<and>
          total_time h' = total_time h"
proof (induction es arbitrary: s lc h)
  case Nil
  then show ?case by simp
next
  case (Cons e es)
  from Cons.prems(1) obtain y where y: "train_body cfg env e (s, lc) = Inr y"
    and l: "train_loop cfg env es y = Inr (s', lc')"
    by (auto dest: sum_case_InrD)
  obtain s1 lc1 where y': "y = (s1, lc1)" by (cases y)
  from train_body_Inr(1) [OF y [unfolded y']] obtain h0 x t where
    h0: "train_hist s = Some h0"
    and h1: "train_hist s1 = Some (h0\<lparr>per_epoch_time := per_epoch_time h0 @ [t],
                                    hist_loss := hist_loss h0 @ [x]\<rparr>)"
    by blast
  have "h0 = h" using h0 Cons.prems(2) by simp
  from Cons.IH [OF l [unfolded y'] h1] show ?case
    by (auto simp: \<open>h0 = h\<close>)
qed

lemma train_begin_hist:
  assumes "train_begin env st = (t0, st0, lc0)"
  shows "train_hist st0 = Some \<lparr>hist_loss = [], per_epoch_time = [], total_time = []\<rparr>"
  using assms by (auto simp: train_begin_def Let_def time_now_def split: prod.splits)

lemma length_upto0: "length [0..n - 1] = nat n"
  by simp

lemma state_before_hist:
  assumes "state_before cfg env st e = Inr (s, lc)"
  shows "\<exists>h. train_hist s = Some h \<and> length (hist_loss h) = nat e \<and>
              length (per_epoch_time h) = nat e \<and> total_time h = []"
proof -
  obtain t0 st0 lc0 where b: "train_begin env st = (t0, st0, lc0)"
    by (cases "train_begin env st")
  have l: "train_loop cfg env [0..e - 1] (st0, lc0) = Inr (s, lc)"
    using assms by (simp add: state_before_def b)
  from train_loop_hist [OF l train_begin_hist [OF b]] show ?thesis
    by (simp add: length_upto0)
qed

lemma train_body_hist:
  assumes "train_body cfg env e (s, lc) = Inr (s', lc')" and "train_hist s = Some h"
  shows "\<exists>h'. train_hist s' = Some h' \<and>
          length (hist_loss h') = length (hist_loss h) + 1 \<and>
          length (per_epoch_time h') = length (per_epoch_time h) + 1 \<and>
          total_time h' = total_time h"
proof -
  have "train_loop cfg env [e] (s, lc) = Inr (s', lc')" using assms(1) by simp
  from train_loop_hist [OF this assms(2)] show ?thesis by simp
qed

lemma train_epoch_not_unbound: "train_epoch cfg env ep st \<noteq> Inl UnboundLocalError"
  by (auto simp: train_epoch_def Let_def split: prod.splits option.splits)

lemma reconstruct_not_unbound: "reconstruct cfg env ld st \<noteq> Inl UnboundLocalError"
  by (auto simp: reconstruct_def Let_def view_def item0_def split: list.splits sum.splits)

lemma sum_case_InlD:
  "(case x of Inl e \<Rightarrow> Inl e | Inr y \<Rightarrow> f y) = Inl z \<Longrightarrow> x \<noteq> Inl z \<Longrightarrow>
     \<exists>y. x = Inr y \<and> f y = Inl z"
  by (cases x) auto

lemma evaluate_not_unbound: "evaluate cfg env ep st \<noteq> Inl UnboundLocalError"
proof
  assume a: "evaluate cfg env ep st = Inl UnboundLocalError"
  define st1 where "st1 = emit [SetMode False] (st\<lparr>model_training := False\<rparr>)"
  obtain st2 buf where b:
    "eval_batches cfg env (loader_batches (train_loader cfg)) (st1, []) = (st2, buf)"
    by (cases "eval_batches cfg env (loader_batches (train_loader cfg)) (st1, [])")
  from a have "\<exists>y. reconstruct cfg env (test_loader cfg) st2 = Inr y \<and>
       (case y of (pts, reconstructed_pl, st3) \<Rightarrow>
          (case reconstruct cfg env (train_loader cfg)
                  (if ep = 10
                   then emit [SaveFig (test_0_png cfg) (cpu pts)]
                          (emit [SaveFig (test_png cfg ep) (cpu reconstructed_pl)] st3)
                   else emit [SaveFig (test_png cfg ep) (cpu reconstructed_pl)] st3) of
             Inl e \<Rightarrow> Inl e
           | Inr (pts', reconstructed_pl', st6) \<Rightarrow>
               Inr (\<lparr>res_loss = np_mean buf\<rparr>,
                    emit [SetMode True]
                      ((emit [SaveFig (train_png cfg ep) (cpu reconstructed_pl'),
                              SaveFig (train_origin_png cfg ep) (cpu pts')] st6)
                         \<lparr>model_training := True\<rparr>)))) = Inl UnboundLocalError"
    unfolding evaluate_def Let_def st1_def [symmetric] b prod.case
    by (rule sum_case_InlD) (rule reconstruct_not_unbound)
  then obtain p1 r1 st3 where
    "(case reconstruct cfg env (train_loader cfg)
                  (if ep = 10
                   then emit [SaveFig (test_0_png cfg) (cpu p1)]
                          (emit [SaveFig (test_png cfg ep) (cpu r1)] st3)
                   else emit [SaveFig (test_png cfg ep) (cpu r1)] st3) of
             Inl e \<Rightarrow> Inl e
           | Inr (pts', reconstructed_pl', st6) \<Rightarrow>
               Inr (\<lparr>res_loss = np_mean buf\<rparr>,
                    emit [SetMode True]
                      ((emit [SaveFig (train_png cfg ep) (cpu reconstructed_pl'),
                              SaveFig (train_origin_png cfg ep) (cpu pts')] st6)
                         \<lparr>model_training := True\<rparr>))) = Inl UnboundLocalError"
    by (auto split: prod.splits simp del: split_paired_Ex)
  from sum_case_InlD [OF this reconstruct_not_unbound] show False
    by (auto split: prod.splits)
qed

lemma eval_part_not_unbound: "eval_part cfg env ep (st, lc) \<noteq> Inl UnboundLocalError"
  using evaluate_not_unbound [of cfg env "ep + 1" st]
  by (auto simp: eval_part_def split: sum.splits prod.splits)

lemma tail_part_unbound:
  "tail_part cfg env ep (st, lc) = Inl UnboundLocalError \<Longrightarrow> res lc = None"
  by (auto simp: tail_part_def Let_def split: if_splits option.splits)

lemma eval_part_res:
  assumes "eval_part cfg env ep (st, lc) = Inr (st3, lc3)"
    and "res lc \<noteq> None \<or> ep = 0"
  shows "res lc3 \<noteq> None"
proof (cases "(ep + 1) mod 10 = 0 \<or> ep = 0")
  case True
  from eval_part_run(1) [OF True assms(1)] show ?thesis by auto
next
  case False
  then show ?thesis using assms eval_part_skip [OF False, of cfg env st lc] by auto
qed

lemma train_body_not_unbound:
  assumes "res lc \<noteq> None \<or> ep = 0"
  shows "train_body cfg env ep (st, lc) \<noteq> Inl UnboundLocalError"
proof
  assume a: "train_body cfg env ep (st, lc) = Inl UnboundLocalError"
  from sum_case_InlD [OF a [unfolded train_body_parts] train_epoch_not_unbound]
  obtain st1 where
    r: "(case eval_part cfg env ep (st1, lc) of
             Inl e \<Rightarrow> Inl e
           | Inr s3 \<Rightarrow> tail_part cfg env ep s3) = Inl UnboundLocalError"
    by blast
  from sum_case_InlD [OF r eval_part_not_unbound] obtain s3 where
    e: "eval_part cfg env ep (st1, lc) = Inr s3" and t: "tail_part cfg env ep s3 = Inl UnboundLocalError"
    by blast
  obtain st3 lc3 where s3: "s3 = (st3, lc3)" by (cases s3)
  from tail_part_unbound [OF t [unfolded s3]] eval_part_res [OF e [unfolded s3] assms]
  show False by simp
qed

lemma train_body_res:
  assumes "train_body cfg env ep (st, lc) = Inr (st', lc')"
    and "res lc \<noteq> None \<or> ep = 0"
  shows "res lc' \<noteq> None"
proof (cases "(ep + 1) mod 10 = 0 \<or> ep = 0")
  case True
  from train_body_Inr(1) [OF assms(1)] show ?thesis by (auto simp: True)
next
  case False
  from train_body_Inr(1) [OF assms(1)] have "lc' = lc" by (auto simp: False)
  then show ?thesis using assms(2) False by simp
qed

lemma train_loop_not_unbound:
  "res lc \<noteq> None \<or> es = [] \<or> hd es = 0 \<Longrightarrow>
     train_loop cfg env es (st, lc) \<noteq> Inl UnboundLocalError"
proof (induction es arbitrary: st lc)
  case Nil
  then show ?case by simp
next
  case (Cons e es)
  then have g: "res lc \<noteq> None \<or> e = 0" by simp
  show ?case
  proof (cases "train_body cfg env e (st, lc)")
    case (Inl x)
    then show ?thesis using train_body_not_unbound [OF g, of cfg env st] by auto
  next
    case (Inr y)
    obtain s1 lc1 where y: "y = (s1, lc1)" by (cases y)
    from train_body_res [OF Inr [unfolded y] g] have "res lc1 \<noteq> None" .
    then have "train_loop cfg env es (s1, lc1) \<noteq> Inl UnboundLocalError"
      by (intro Cons.IH) simp
    then show ?thesis by (simp add: Inr y)
  qed
qed

lemma upto0_hd: "[0..n - 1] = [] \<or> hd [0..n - 1] = (0::int)"
  by (cases "0 \<le> n - 1") (simp_all add: upto_rec1)

lemma train_end_not_unbound: "train_end cfg env t0 st \<noteq> Inl UnboundLocalError"
  by (auto simp: train_end_def Let_def split: prod.splits option.splits)

lemma train_not_unbound: "train cfg env st \<noteq> Inl UnboundLocalError"
proof -
  obtain t0 st0 lc0 where b: "train_begin env st = (t0, st0, lc0)"
    by (cases "train_begin env st")
  have "train_loop cfg env [0..epoch cfg - 1] (st0, lc0) \<noteq> Inl UnboundLocalError"
    using upto0_hd [of "epoch cfg"] by (intro train_loop_not_unbound) auto
  then show ?thesis
    using train_end_not_unbound [of cfg env t0]
    by (auto simp: train_def b split: sum.splits)
qed

lemma saved_models_iff: "p \<in> set (saved_models evs) \<longleftrightarrow> (\<exists>q. TorchSave p q \<in> set evs)"
  by (induction evs rule: saved_models.induct) auto

lemma body_test_loss:
  assumes "train_body cfg env ep (st, lc) = Inr (st', lc')" and "writer cfg"
  shows "\<exists>r. res lc' = Some r \<and>
           AddScalar ''Test Loss'' (res_loss r) ep \<in> set (new_events st st') \<and>
           ((ep + 1) mod 10 = 0 \<or> ep = 0 \<or> res lc' = res lc)"
proof -
  from train_body_Inr(1) [OF assms(1)] obtain A B st3 where
    t: "trace st' = trace st @ A @ B @ tail_events cfg env ep st3 lc'"
    and A: "list_all step_event A"
    and B: "if (ep + 1) mod 10 = 0 \<or> ep = 0
            then \<exists>r evs p. res lc' = Some r \<and>
                   B = SetMode False # evs @
                         (if np_less (res_loss r) (best_loss lc) then best_events cfg p else []) \<and>
                   list_all eval_event evs \<and>
                   best_loss lc' =
                     (if np_less (res_loss r) (best_loss lc) then res_loss r else best_loss lc)
            else B = [] \<and> lc' = lc"
    by blast
  have n: "new_events st st' = A @ B @ tail_events cfg env ep st3 lc'"
    using t by (rule new_events_append)
  from train_body_Inr(4) [OF assms] obtain r where r: "res lc' = Some r" by auto
  have "AddScalar ''Test Loss'' (res_loss r) ep \<in> set (tail_events cfg env ep st3 lc')"
    using assms(2) r by (simp add: tail_events_def)
  then have m: "AddScalar ''Test Loss'' (res_loss r) ep \<in> set (new_events st st')"
    by (simp add: n)
  have d: "(ep + 1) mod 10 = 0 \<or> ep = 0 \<or> res lc' = res lc"
  proof (cases "(ep + 1) mod 10 = 0 \<or> ep = 0")
    case True
    then show ?thesis by blast
  next
    case False
    from B have "B = [] \<and> lc' = lc" by (simp only: False if_False)
    then show ?thesis by simp
  qed
  from r m d show ?thesis by (intro exI [of _ r] conjI)
qed

lemma train_body_locals:
  assumes "train_body cfg env ep (st, lc) = Inr (st', lc')"
  shows "(ep + 1) mod 10 = 0 \<or> ep = 0 \<Longrightarrow>
           \<exists>r. res lc' = Some r \<and>
               best_loss lc' =
                 (if np_less (res_loss r) (best_loss lc) then res_loss r else best_loss lc)"
    and "\<not> ((ep + 1) mod 10 = 0 \<or> ep = 0) \<Longrightarrow> lc' = lc"
proof -
  from train_body_Inr(1) [OF assms(1)] obtain A B st3 where
    t: "trace st' = trace st @ A @ B @ tail_events cfg env ep st3 lc'"
    and A: "list_all step_event A"
    and B: "if (ep + 1) mod 10 = 0 \<or> ep = 0
            then \<exists>r evs p. res lc' = Some r \<and>
                   B = SetMode False # evs @
                         (if np_less (res_loss r) (best_loss lc) then best_events cfg p else []) \<and>
                   list_all eval_event evs \<and>
                   best_loss lc' =
                     (if np_less (res_loss r) (best_loss lc) then res_loss r else best_loss lc)
            else B = [] \<and> lc' = lc"
    by blast
  {
    assume g: "(ep + 1) mod 10 = 0 \<or> ep = 0"
    from B have "\<exists>r evs p. res lc' = Some r \<and>
                   B = SetMode False # evs @
                         (if np_less (res_loss r) (best_loss lc) then best_events cfg p else []) \<and>
                   list_all eval_event evs \<and>
                   best_loss lc' =
                     (if np_less (res_loss r) (best_loss lc) then res_loss r else best_loss lc)"
      by (simp only: g if_True)
    then obtain r where "res lc' = Some r" "best_loss lc' =
                     (if np_less (res_loss r) (best_loss lc) then res_loss r else best_loss lc)"
      by (elim exE conjE) (rule that)
    then show "\<exists>r. res lc' = Some r \<and>
               best_loss lc' =
                 (if np_less (res_loss r) (best_loss lc) then res_loss r else best_loss lc)"
      by (intro exI [of _ r] conjI)
  }
  {
    assume g: "\<not> ((ep + 1) mod 10 = 0 \<or> ep = 0)"
    from B have "B = [] \<and> lc' = lc" by (simp only: g if_False)
    then show "lc' = lc" by simp
  }
qed

lemma state_before_0:
  "state_before cfg env st 0 = Inr (s, lc) \<Longrightarrow> best_loss lc = Fin 1000000000"
  by (auto simp: state_before_def train_begin_def Let_def time_now_def split: prod.splits)

lemma best_loss_invariant:
  assumes "0 \<le> e"
  shows "state_before cfg env st e = Inr (s, lc) \<Longrightarrow>
    \<exists>b. best_loss lc = Fin b \<and> b \<le> 1000000000 \<and>
        (b = 1000000000 \<or>
         (\<exists>j. 0 \<le> j \<and> j < e \<and> (j = 0 \<or> (j + 1) mod 10 = 0) \<and>
              loss_after cfg env st j = Some (Fin b))) \<and>
        (\<forall>j x. 0 \<le> j \<and> j < e \<and> (j = 0 \<or> (j + 1) mod 10 = 0) \<and>
               loss_after cfg env st j = Some (Fin x) \<longrightarrow> b \<le> x)"
  using assms
proof (induction e arbitrary: s lc rule: int_ge_induct)
  case base
  from state_before_0 [OF base] show ?case by (intro exI [of _ 1000000000]) simp
next
  case (step i)
  from step.prems [unfolded state_before_Suc [OF step.hyps]] obtain y where
    sb: "state_before cfg env st i = Inr y" and tb0: "train_body cfg env i y = Inr (s, lc)"
    by (auto dest: sum_case_InrD)
  obtain s0 lc0 where y: "y = (s0, lc0)" by (cases y)
  note sb = sb [unfolded y] and tb = tb0 [unfolded y]
  have it: "iteration cfg env st i = Some ((s0, lc0), (s, lc))"
    by (simp add: iteration_def sb tb)
  have la: "loss_after cfg env st i = map_option res_loss (res lc)"
    by (simp add: loss_after_def it)
  from step.IH [OF sb] obtain b where b1: "best_loss lc0 = Fin b" and b2: "b \<le> 1000000000"
    and b3: "b = 1000000000 \<or>
         (\<exists>j. 0 \<le> j \<and> j < i \<and> (j = 0 \<or> (j + 1) mod 10 = 0) \<and>
              loss_after cfg env st j = Some (Fin b))"
    and b4: "\<forall>j x. 0 \<le> j \<and> j < i \<and> (j = 0 \<or> (j + 1) mod 10 = 0) \<and>
               loss_after cfg env st j = Some (Fin x) \<longrightarrow> b \<le> x"
    by (elim exE conjE) (rule that)
  have b3': "b = 1000000000 \<or>
         (\<exists>j. 0 \<le> j \<and> j < i + 1 \<and> (j = 0 \<or> (j + 1) mod 10 = 0) \<and>
              loss_after cfg env st j = Some (Fin b))"
  proof (rule disjE [OF b3])
    assume "b = 1000000000" then show ?thesis by (rule disjI1)
  next
    assume "\<exists>j. 0 \<le> j \<and> j < i \<and> (j = 0 \<or> (j + 1) mod 10 = 0) \<and>
              loss_after cfg env st j = Some (Fin b)"
    then obtain j where "0 \<le> j" "j < i" "j = 0 \<or> (j + 1) mod 10 = 0"
      "loss_after cfg env st j = Some (Fin b)" by (elim exE conjE) (rule that)
    then have "0 \<le> j \<and> j < i + 1 \<and> (j = 0 \<or> (j + 1) mod 10 = 0) \<and>
              loss_after cfg env st j = Some (Fin b)" by simp
    then show ?thesis by (intro disjI2 exI [of _ j])
  qed
  have old: "b \<le> x" if "0 \<le> j" "j < i" "j = 0 \<or> (j + 1) mod 10 = 0"
    "loss_after cfg env st j = Some (Fin x)" for j x
  proof -
    from b4 have "0 \<le> j \<and> j < i \<and> (j = 0 \<or> (j + 1) mod 10 = 0) \<and>
               loss_after cfg env st j = Some (Fin x) \<longrightarrow> b \<le> x"
      by (elim allE)
    with that show ?thesis by (simp only: simp_thms)
  qed
  show ?case
  proof (cases "(i + 1) mod 10 = 0 \<or> i = 0")
    case False
    have "lc = lc0" by (rule train_body_locals(2) [OF tb False])
    have all: "\<forall>j x. 0 \<le> j \<and> j < i + 1 \<and> (j = 0 \<or> (j + 1) mod 10 = 0) \<and>
               loss_after cfg env st j = Some (Fin x) \<longrightarrow> b \<le> x"
    proof (intro allI impI, elim conjE)
      fix j x assume a: "0 \<le> j" "j < i + 1" "j = 0 \<or> (j + 1) mod 10 = 0"
        "loss_after cfg env st j = Some (Fin x)"
      have "j \<noteq> i" using a(3) False by auto
      then have "j < i" using a(2) by simp
      from old [OF a(1) this a(3,4)] show "b \<le> x" .
    qed
    from b1 b2 b3' all show ?thesis
      unfolding \<open>lc = lc0\<close> by (intro exI [of _ b] conjI)
  next
    case True
    from train_body_locals(1) [OF tb True] obtain r where r1: "res lc = Some r"
      and r2: "best_loss lc = (if np_less (res_loss r) (best_loss lc0) then res_loss r else best_loss lc0)"
      by (elim exE conjE) (rule that)
    have la': "loss_after cfg env st i = Some (res_loss r)" by (simp add: la r1)
    have gi: "i = 0 \<or> (i + 1) mod 10 = 0" using True by blast
    show ?thesis
    proof (cases "res_loss r")
      case NaN
      have bl: "best_loss lc = Fin b" using r2 by (simp add: NaN b1)
      have all: "\<forall>j x. 0 \<le> j \<and> j < i + 1 \<and> (j = 0 \<or> (j + 1) mod 10 = 0) \<and>
               loss_after cfg env st j = Some (Fin x) \<longrightarrow> b \<le> x"
      proof (intro allI impI, elim conjE)
        fix j x assume a: "0 \<le> j" "j < i + 1" "j = 0 \<or> (j + 1) mod 10 = 0"
          "loss_after cfg env st j = Some (Fin x)"
        have "j \<noteq> i" using a(4) la' NaN by auto
        then have "j < i" using a(2) by simp
        from old [OF a(1) this a(3,4)] show "b \<le> x" .
      qed
      from bl b2 b3' all show ?thesis by (intro exI [of _ b] conjI)
    next
      case (Fin l)
      show ?thesis
      proof (cases "l < b")
        case True
        have bl: "best_loss lc = Fin l" using r2 True by (simp add: Fin b1)
        have le: "l \<le> 1000000000" using True b2 by simp
        have "0 \<le> i \<and> i < i + 1 \<and> (i = 0 \<or> (i + 1) mod 10 = 0) \<and>
              loss_after cfg env st i = Some (Fin l)"
          using step.hyps gi la' Fin by simp
        then have ex: "l = 1000000000 \<or> (\<exists>j. 0 \<le> j \<and> j < i + 1 \<and> (j = 0 \<or> (j + 1) mod 10 = 0) \<and>
              loss_after cfg env st j = Some (Fin l))"
          by (intro disjI2 exI [of _ i])
        have all: "\<forall>j x. 0 \<le> j \<and> j < i + 1 \<and> (j = 0 \<or> (j + 1) mod 10 = 0) \<and>
               loss_after cfg env st j = Some (Fin x) \<longrightarrow> l \<le> x"
        proof (intro allI impI, elim conjE)
          fix j x assume a: "0 \<le> j" "j < i + 1" "j = 0 \<or> (j + 1) mod 10 = 0"
            "loss_after cfg env st j = Some (Fin x)"
          show "l \<le> x"
          proof (cases "j = i")
            case True
            then show ?thesis using a(4) la' Fin by simp
          next
            case False
            then have "j < i" using a(2) by simp
            from old [OF a(1) this a(3,4)] \<open>l < b\<close> show ?thesis by simp
          qed
        qed
        from bl le ex all show ?thesis by (intro exI [of _ l] conjI)
      next
        case False
        have bl: "best_loss lc = Fin b" using r2 False by (simp add: Fin b1)
        have all: "\<forall>j x. 0 \<le> j \<and> j < i + 1 \<and> (j = 0 \<or> (j + 1) mod 10 = 0) \<and>
               loss_after cfg env st j = Some (Fin x) \<longrightarrow> b \<le> x"
        proof (intro allI impI, elim conjE)
          fix j x assume a: "0 \<le> j" "j < i + 1" "j = 0 \<or> (j + 1) mod 10 = 0"
            "loss_after cfg env st j = Some (Fin x)"
          show "b \<le> x"
          proof (cases "j = i")
            case True
            then show ?thesis using a(4) la' Fin False by simp
          next
            case False
            then have "j < i" using a(2) by simp
            from old [OF a(1) this a(3,4)] show ?thesis .
          qed
        qed
        from bl b2 b3' all show ?thesis by (intro exI [of _ b] conjI)
      qed
    qed
  qed
qed

lemma np_less_best:
  assumes "b \<le> 1000000000"
    and "b = 1000000000 \<or>
         (\<exists>j. 0 \<le> j \<and> j < e \<and> (j = 0 \<or> (j + 1) mod 10 = 0) \<and> f j = Some (Fin b))"
    and "\<forall>j x. 0 \<le> j \<and> j < e \<and> (j = 0 \<or> (j + 1) mod 10 = 0) \<and> f j = Some (Fin x) \<longrightarrow> b \<le> x"
  shows "np_less l (Fin b) \<longleftrightarrow>
           (np_less l (Fin 1000000000) \<and>
            (\<forall>j x. 0 \<le> j \<and> j < e \<and> (j = 0 \<or> (j + 1) mod 10 = 0) \<and> f j = Some (Fin x)
                    \<longrightarrow> np_less l (Fin x)))"
proof (cases l)
  case NaN
  then show ?thesis by simp
next
  case (Fin v)
  show ?thesis
  proof
    assume "np_less l (Fin b)"
    then have vb: "v < b" by (simp add: Fin)
    have "v < 1000000000" using vb assms(1) by simp
    moreover have "\<forall>j x. 0 \<le> j \<and> j < e \<and> (j = 0 \<or> (j + 1) mod 10 = 0) \<and> f j = Some (Fin x)
                    \<longrightarrow> v < x"
    proof (intro allI impI)
      fix j x assume a: "0 \<le> j \<and> j < e \<and> (j = 0 \<or> (j + 1) mod 10 = 0) \<and> f j = Some (Fin x)"
      from assms(3) have "0 \<le> j \<and> j < e \<and> (j = 0 \<or> (j + 1) mod 10 = 0) \<and> f j = Some (Fin x)
                    \<longrightarrow> b \<le> x" by (elim allE)
      with a have "b \<le> x" by (rule rev_mp)
      with vb show "v < x" by simp
    qed
    ultimately show "np_less l (Fin 1000000000) \<and>
            (\<forall>j x. 0 \<le> j \<and> j < e \<and> (j = 0 \<or> (j + 1) mod 10 = 0) \<and> f j = Some (Fin x)
                    \<longrightarrow> np_less l (Fin x))"
      by (simp add: Fin)
  next
    assume r: "np_less l (Fin 1000000000) \<and>
            (\<forall>j x. 0 \<le> j \<and> j < e \<and> (j = 0 \<or> (j + 1) mod 10 = 0) \<and> f j = Some (Fin x)
                    \<longrightarrow> np_less l (Fin x))"
    from assms(2) show "np_less l (Fin b)"
    proof
      assume "b = 1000000000"
      then show ?thesis using r by simp
    next
      assume "\<exists>j. 0 \<le> j \<and> j < e \<and> (j = 0 \<or> (j + 1) mod 10 = 0) \<and> f j = Some (Fin b)"
      then obtain j where j: "0 \<le> j \<and> j < e \<and> (j = 0 \<or> (j + 1) mod 10 = 0) \<and> f j = Some (Fin b)"
        by (elim exE)
      from r have "0 \<le> j \<and> j < e \<and> (j = 0 \<or> (j + 1) mod 10 = 0) \<and> f j = Some (Fin b)
                    \<longrightarrow> np_less l (Fin b)" by (elim conjE allE)
      with j show ?thesis by (rule rev_mp)
    qed
  qed
qed

lemma saved_figures_append: "saved_figures (xs @ ys) = saved_figures xs @ saved_figures ys"
  by (induction xs rule: saved_figures.induct) auto

lemma saved_figures_pass: "list_all (pass_event t g) evs \<Longrightarrow> saved_figures evs = []"
  by (induction evs rule: saved_figures.induct) auto

lemma eval_eventsD:
  assumes "eval_events cfg env ep st = Some evs"
  shows "\<exists>r st'. evaluate cfg env ep st = Inr (r, st') \<and> evs = new_events st st'"
  using assms by (auto simp: eval_events_def split: sum.splits)

lemma eval_batches_num_points:
  "eval_batches (cfg\<lparr>num_points := k\<rparr>) env bs s = eval_batches cfg env bs s"
proof (induction bs arbitrary: s)
  case Nil
  then show ?case by (cases s) simp
next
  case (Cons b bs)
  then show ?case by (cases s; cases b) (simp add: Let_def)
qed

lemma reconstruct_num_points:
  "reconstruct (cfg\<lparr>num_points := k\<rparr>) env ld st = reconstruct cfg env ld st"
  by (simp add: reconstruct_def Let_def split: list.splits prod.splits)

lemma figure_paths_num_points:
  "test_png (cfg\<lparr>num_points := k\<rparr>) ep = test_png cfg ep"
  "test_0_png (cfg\<lparr>num_points := k\<rparr>) = test_0_png cfg"
  "train_png (cfg\<lparr>num_points := k\<rparr>) ep = train_png cfg ep"
  "train_origin_png (cfg\<lparr>num_points := k\<rparr>) ep = train_origin_png cfg ep"
  by (simp_all add: test_png_def test_0_png_def train_png_def train_origin_png_def)

lemma config_num_points:
  "train_loader (cfg\<lparr>num_points := k\<rparr>) = train_loader cfg"
  "test_loader (cfg\<lparr>num_points := k\<rparr>) = test_loader cfg"
  by simp_all

lemma evaluate_num_points:
  "evaluate (cfg\<lparr>num_points := k\<rparr>) env ep st = evaluate cfg env ep st"
  unfolding evaluate_def eval_batches_num_points reconstruct_num_points
    figure_paths_num_points config_num_points ..

lemma reconstruct_sample:
  assumes "reconstruct cfg env ld st = Inr y"
  shows "\<exists>p l rest. loader_dataset ld = (p, l) # rest \<and> numel p = 2048 * 3"
proof -
  obtain pts rc st' where "y = (pts, rc, st')" by (cases y)
  from reconstruct_Inr [OF assms [unfolded this]] show ?thesis by blast
qed

lemma eval_loss_train_loader:
  assumes "eval_loss cfg env ep st = Some l"
  shows "l = loader_mean_loss cfg env (model_params st) (train_loader cfg)"
proof -
  from assms obtain r st' where ev: "evaluate cfg env ep st = Inr (r, st')" and l: "l = res_loss r"
    by (auto simp: eval_loss_def split: sum.splits)
  show ?thesis unfolding l loader_mean_loss_def by (rule evaluate_Inr(7) [OF ev])
qed

lemma reconstruct_detail:
  assumes "reconstruct cfg env ld st = Inr (pts, rc, st')"
  shows "\<exists>pts0 lbl rest v.
           loader_dataset ld = (pts0, lbl) # rest \<and>
           numel pts0 = 2048 * 3 \<and>
           pts = on_device cfg pts0 \<and>
           view (on_device cfg pts0) [1, 2048, 3] = Inr v \<and>
           shape v = [1, 2048, 3] \<and>
           item0 (forward env (model_params st) (model_training st) v) = Inr rc \<and>
           st' = emit [Forward v (model_training st) (grad_enabled st)] st"
proof -
  from assms obtain pts0 lbl rest where d: "loader_dataset ld = (pts0, lbl) # rest"
    unfolding reconstruct_def by (auto split: list.splits)
  have r: "(case view (on_device cfg pts0) [1, 2048, 3] of
                Inl e \<Rightarrow> Inl e
              | Inr v \<Rightarrow>
                  (case item0 (forward env (model_params st) (model_training st) v) of
                     Inl e \<Rightarrow> Inl e
                   | Inr reconstructed_pl \<Rightarrow>
                       Inr (on_device cfg pts0, reconstructed_pl,
                            emit [Forward v (model_training st) (grad_enabled st)] st))) =
           Inr (pts, rc, st')"
    using assms unfolding reconstruct_def d on_device_def by (simp add: Let_def)
  from r obtain v where v: "view (on_device cfg pts0) [1, 2048, 3] = Inr v"
    and r2: "(case item0 (forward env (model_params st) (model_training st) v) of
                     Inl e \<Rightarrow> Inl e
                   | Inr reconstructed_pl \<Rightarrow>
                       Inr (on_device cfg pts0, reconstructed_pl,
                            emit [Forward v (model_training st) (grad_enabled st)] st)) =
           Inr (pts, rc, st')"
    by (auto dest: sum_case_InrD)
  from r2 obtain rc' where i: "item0 (forward env (model_params st) (model_training st) v) = Inr rc'"
    and r3: "(on_device cfg pts0, rc',
              emit [Forward v (model_training st) (grad_enabled st)] st) = (pts, rc, st')"
    by (auto dest: sum_case_InrD)
  have sv: "shape v = [1, 2048, 3]" and n: "numel pts0 = 2048 * 3"
    using v by (auto simp: view_def numel_def on_device_def cuda_def split: if_splits)
  from d n v sv i r3 show ?thesis by auto
qed

lemma evaluate_detail:
  assumes "evaluate cfg env ep st = Inr (r, st')"
  shows "\<exists>es p1 l1 rest1 v1 r1 p2 l2 rest2 v2 r2.
           loader_dataset (test_loader cfg) = (p1, l1) # rest1 \<and>
           loader_dataset (train_loader cfg) = (p2, l2) # rest2 \<and>
           numel p1 = 2048 * 3 \<and> numel p2 = 2048 * 3 \<and>
           view (on_device cfg p1) [1, 2048, 3] = Inr v1 \<and>
           view (on_device cfg p2) [1, 2048, 3] = Inr v2 \<and>
           shape v1 = [1, 2048, 3] \<and> shape v2 = [1, 2048, 3] \<and>
           item0 (forward env (model_params st) False v1) = Inr r1 \<and>
           item0 (forward env (model_params st) False v2) = Inr r2 \<and>
           trace st' = trace st @ [SetMode False] @ es @
             [Forward v1 False (grad_enabled st), SaveFig (test_png cfg ep) (cpu r1)] @
             (if ep = 10 then [SaveFig (test_0_png cfg) (cpu (on_device cfg p1))] else []) @
             [Forward v2 False (grad_enabled st),
              SaveFig (train_png cfg ep) (cpu r2),
              SaveFig (train_origin_png cfg ep) (cpu (on_device cfg p2)),
              SetMode True] \<and>
           list_all (pass_event False (grad_enabled st)) es"
proof -
  define st1 where "st1 = emit [SetMode False] (st\<lparr>model_training := False\<rparr>)"
  obtain st2 buf where b:
    "eval_batches cfg env (loader_batches (train_loader cfg)) (st1, []) = (st2, buf)"
    by (cases "eval_batches cfg env (loader_batches (train_loader cfg)) (st1, [])")
  note fr = eval_batches_frame [OF b]
  from fr obtain es where es: "trace st2 = trace st1 @ es"
    "list_all (pass_event (model_training st1) (grad_enabled st1)) es" by blast
  have ev: "evaluate cfg env ep st =
     (case reconstruct cfg env (test_loader cfg) st2 of
                Inl e \<Rightarrow> Inl e
              | Inr (pts, reconstructed_pl, st3) \<Rightarrow>
                  (let st4 = emit [SaveFig (test_png cfg ep) (cpu reconstructed_pl)] st3;
                       st5 = (if ep = 10 then emit [SaveFig (test_0_png cfg) (cpu pts)] st4
                              else st4)
                   in case reconstruct cfg env (train_loader cfg) st5 of
                        Inl e \<Rightarrow> Inl e
                      | Inr (pts', reconstructed_pl', st6) \<Rightarrow>
                          (let st7 = emit [SaveFig (train_png cfg ep) (cpu reconstructed_pl'),
                                           SaveFig (train_origin_png cfg ep) (cpu pts')] st6;
                               st8 = emit [SetMode True] (st7\<lparr>model_training := True\<rparr>)
                           in Inr (\<lparr>res_loss = np_mean buf\<rparr>, st8))))"
    unfolding evaluate_def Let_def st1_def [symmetric] b by simp
  from assms [unfolded ev] obtain y1 where y1:
    "reconstruct cfg env (test_loader cfg) st2 = Inr y1"
    by (auto dest: sum_case_InrD)
  obtain q1 r1 st3 where y1': "y1 = (q1, r1, st3)" by (cases y1)
  note rc1 = y1 [unfolded y1']
  define st5 where "st5 = (if ep = 10
       then emit [SaveFig (test_0_png cfg) (cpu q1)] (emit [SaveFig (test_png cfg ep) (cpu r1)] st3)
       else emit [SaveFig (test_png cfg ep) (cpu r1)] st3)"
  have ev2: "(case reconstruct cfg env (train_loader cfg) st5 of
                        Inl e \<Rightarrow> Inl e
                      | Inr (pts', reconstructed_pl', st6) \<Rightarrow>
                          Inr (\<lparr>res_loss = np_mean buf\<rparr>,
                               emit [SetMode True]
                                 ((emit [SaveFig (train_png cfg ep) (cpu reconstructed_pl'),
                                         SaveFig (train_origin_png cfg ep) (cpu pts')] st6)
                                    \<lparr>model_training := True\<rparr>))) = Inr (r, st')"
    using assms unfolding ev rc1 Let_def st5_def by (simp split del: if_split)
  from ev2 obtain y2 where y2: "reconstruct cfg env (train_loader cfg) st5 = Inr y2"
    by (auto dest: sum_case_InrD)
  obtain q2 r2 st6 where y2': "y2 = (q2, r2, st6)" by (cases y2)
  note rc2 = y2 [unfolded y2']
  have st': "st' = emit [SetMode True]
       ((emit [SaveFig (train_png cfg ep) (cpu r2),
               SaveFig (train_origin_png cfg ep) (cpu q2)] st6)
          \<lparr>model_training := True\<rparr>)"
    using ev2 unfolding rc2 by simp
  have m1: "model_training st1 = False" "grad_enabled st1 = grad_enabled st"
    "trace st1 = trace st @ [SetMode False]" "model_params st1 = model_params st"
    by (simp_all add: st1_def)
  have m2: "model_training st2 = False" "grad_enabled st2 = grad_enabled st"
    "model_params st2 = model_params st"
    using fr by (simp_all add: m1)
  from reconstruct_detail [OF rc1] obtain p1 l1 rest1 v1 where
    d1: "loader_dataset (test_loader cfg) = (p1, l1) # rest1" "numel p1 = 2048 * 3"
        "q1 = on_device cfg p1" "view (on_device cfg p1) [1, 2048, 3] = Inr v1"
        "shape v1 = [1, 2048, 3]"
        "item0 (forward env (model_params st2) (model_training st2) v1) = Inr r1"
        "st3 = emit [Forward v1 (model_training st2) (grad_enabled st2)] st2"
    by (elim exE conjE) (rule that)
  have m5: "model_training st5 = False" "grad_enabled st5 = grad_enabled st"
    "model_params st5 = model_params st"
    by (simp_all add: st5_def d1(7) m2)
  from reconstruct_detail [OF rc2] obtain p2 l2 rest2 v2 where
    d2: "loader_dataset (train_loader cfg) = (p2, l2) # rest2" "numel p2 = 2048 * 3"
        "q2 = on_device cfg p2" "view (on_device cfg p2) [1, 2048, 3] = Inr v2"
        "shape v2 = [1, 2048, 3]"
        "item0 (forward env (model_params st5) (model_training st5) v2) = Inr r2"
        "st6 = emit [Forward v2 (model_training st5) (grad_enabled st5)] st5"
    by (elim exE conjE) (rule that)
  have t: "trace st' = trace st @ [SetMode False] @ es @
             [Forward v1 False (grad_enabled st), SaveFig (test_png cfg ep) (cpu r1)] @
             (if ep = 10 then [SaveFig (test_0_png cfg) (cpu (on_device cfg p1))] else []) @
             [Forward v2 False (grad_enabled st),
              SaveFig (train_png cfg ep) (cpu r2),
              SaveFig (train_origin_png cfg ep) (cpu (on_device cfg p2)),
              SetMode True]"
    by (simp add: st' d2(7) m5 st5_def d1(7) m2 es(1) m1 d1(3) d2(3))
  have p: "list_all (pass_event False (grad_enabled st)) es"
    using es(2) by (simp add: m1)
  have i1: "item0 (forward env (model_params st) False v1) = Inr r1"
    using d1(6) by (simp add: m2)
  have i2: "item0 (forward env (model_params st) False v2) = Inr r2"
    using d2(6) by (simp add: m5)
  from d1(1,2,4,5) d2(1,2,4,5) i1 i2 t p show ?thesis
    by (intro exI conjI)
qed

lemma figures_append: "figures (xs @ ys) = figures xs @ figures ys"
  by (induction xs rule: figures.induct) auto

lemma figures_pass: "list_all (pass_event t g) evs \<Longrightarrow> figures evs = []"
  by (induction evs rule: figures.induct) auto

lemma pass_event_not_mode: "list_all (pass_event t g) evs \<Longrightarrow> SetMode b \<notin> set evs"
  by (auto simp: list_all_iff)

lemma eval_stateD:
  assumes "eval_state cfg env ep st = Some st'"
  shows "\<exists>r. evaluate cfg env ep st = Inr (r, st')"
  using assms by (auto simp: eval_state_def split: sum.splits)

lemmas run_defs2 = run_defs eval_events_def eval_loss_def run_events_def loader_mean_loss_def
  final_hist_def eval_state_def on_device_def ex_wide_loader_def ex_wide_config_def

lemma loss_after_prev:
  assumes "0 < e" and "iteration cfg env st e = Some ((s, lc), (s', lc'))"
  shows "loss_after cfg env st (e - 1) = map_option res_loss (res lc)"
proof -
  have e: "0 \<le> e - 1" using assms(1) by simp
  have "state_before cfg env st (e - 1 + 1) = Inr (s, lc)"
    using iterationD(1) [OF assms(2)] by simp
  from this [unfolded state_before_Suc [OF e]] obtain y where
    sb: "state_before cfg env st (e - 1) = Inr y" and tb: "train_body cfg env (e - 1) y = Inr (s, lc)"
    by (auto dest: sum_case_InrD)
  have "iteration cfg env st (e - 1) = Some (y, (s, lc))"
    by (simp add: iteration_def sb tb)
  then show ?thesis by (simp add: loss_after_def)
qed

lemma train_state_before:
  "train_begin env st = (t0, st0, lc0) \<Longrightarrow>
   train cfg env st =
     (case state_before cfg env st (epoch cfg) of
        Inl e \<Rightarrow> Inl e
      | Inr (st1, lc1) \<Rightarrow> train_end cfg env t0 st1)"
  by (simp add: train_def state_before_def)

section \<open>The claims\<close>

text \<open>
  Claim C1: the mean loss \<^verbatim>\<open>evaluate\<close> returns is computed over the held-out (test) loader.
  The code iterates \<^verbatim>\<open>self.train_loader\<close> in the loss loop of \<^verbatim>\<open>evaluate\<close>
  (lemma \<open>eval_loss_train_loader\<close>: the loss returned is always the mean over the
  train loader). On the example trainer, whose training data give loss 1 and whose test
  data give loss 5, \<^verbatim>\<open>evaluate\<close> returns 1.
\<close>

theorem evaluate_loss_is_train_loader_loss:
  "eval_loss (ex_config 1 1) ex_env 1 ex_trainer = Some (Fin 1) \<and>
   loader_mean_loss (ex_config 1 1) ex_env (model_params ex_trainer)
     (train_loader (ex_config 1 1)) = Fin 1 \<and>
   loader_mean_loss (ex_config 1 1) ex_env (model_params ex_trainer)
     (test_loader (ex_config 1 1)) = Fin 5"
  by (simp add: run_defs2)

text \<open>
  Claim C2: the read of \<^verbatim>\<open>res['loss']\<close> for the "Test Loss" scalar is outside the guard of
  the evaluation and fails on epochs without evaluation. As stated this is false: in a run
  of two epochs the second iteration makes no evaluation, and the scalar is logged there
  with the loss of the first evaluation.
\<close>

theorem test_loss_read_succeeds_without_evaluation:
  "completes (train (ex_config 2 1) ex_env ex_trainer) \<and>
   iter_events (ex_config 2 1) ex_env ex_trainer 1 \<noteq> None \<and>
   SetMode False \<notin> set (the (iter_events (ex_config 2 1) ex_env ex_trainer 1)) \<and>
   AddScalar ''Test Loss'' (Fin 1) 1
     \<in> set (the (iter_events (ex_config 2 1) ex_env ex_trainer 1))"
  by (simp add: run_defs2)

text \<open>
  Claim C2, amended: \<^verbatim>\<open>train\<close> never fails with an unbound \<^verbatim>\<open>res\<close>, because the first
  iteration always evaluates; with a writer, every iteration of a run logs "Test Loss",
  and in an iteration without evaluation the value logged is the one the previous
  iteration ended with.
\<close>

theorem test_loss_read_never_unbound:
  "train cfg env st \<noteq> Inl UnboundLocalError \<and>
   (completes (train cfg env st) \<and> 0 \<le> e \<and> e < epoch cfg \<and> writer cfg \<longrightarrow>
      (\<exists>evs l. iter_events cfg env st e = Some evs \<and>
              loss_after cfg env st e = Some l \<and>
              AddScalar ''Test Loss'' l e \<in> set evs \<and>
              ((e + 1) mod 10 = 0 \<or> e = 0 \<or> loss_after cfg env st (e - 1) = Some l)))"
proof (intro conjI impI)
  show "train cfg env st \<noteq> Inl UnboundLocalError" by (rule train_not_unbound)
next
  assume a: "completes (train cfg env st) \<and> 0 \<le> e \<and> e < epoch cfg \<and> writer cfg"
  then have c: "completes (train cfg env st)" and e0: "0 \<le> e" and e1: "e < epoch cfg"
    and w: "writer cfg" by simp_all
  from completes_iteration [OF c e0 e1] obtain s lc s' lc' where
    it: "iteration cfg env st e = Some ((s, lc), (s', lc'))"
    and b: "train_body cfg env e (s, lc) = Inr (s', lc')" by blast
  have ie: "iter_events cfg env st e = Some (new_events s s')"
    by (simp add: iter_events_def it)
  from body_test_loss [OF b w] obtain r where r: "res lc' = Some r"
    and m: "AddScalar ''Test Loss'' (res_loss r) e \<in> set (new_events s s')"
    and d: "(e + 1) mod 10 = 0 \<or> e = 0 \<or> res lc' = res lc"
    by (elim exE conjE) (rule that)
  have la: "loss_after cfg env st e = Some (res_loss r)"
    by (simp add: loss_after_def it r)
  have d': "(e + 1) mod 10 = 0 \<or> e = 0 \<or> loss_after cfg env st (e - 1) = Some (res_loss r)"
  proof (cases "(e + 1) mod 10 = 0 \<or> e = 0")
    case True
    then show ?thesis by blast
  next
    case False
    then have "0 < e" using e0 by simp
    from d False have "res lc = Some r" using r by simp
    with loss_after_prev [OF \<open>0 < e\<close> it] show ?thesis by simp
  qed
  from ie la m d' show "\<exists>evs l. iter_events cfg env st e = Some evs \<and>
              loss_after cfg env st e = Some l \<and>
              AddScalar ''Test Loss'' l e \<in> set evs \<and>
              ((e + 1) mod 10 = 0 \<or> e = 0 \<or> loss_after cfg env st (e - 1) = Some l)"
    by (intro exI conjI)
qed

theorem test_loss_read_never_unbound_witness:
  "completes (train (ex_config 2 1) ex_env ex_trainer) \<and> (0::int) \<le> 1 \<and>
   1 < epoch (ex_config 2 1) \<and> writer (ex_config 2 1) \<and>
   train (ex_config 2 1) ex_env ex_trainer \<noteq> Inl UnboundLocalError \<and>
   (\<exists>evs l. iter_events (ex_config 2 1) ex_env ex_trainer 1 = Some evs \<and>
           loss_after (ex_config 2 1) ex_env ex_trainer 1 = Some l \<and>
           AddScalar ''Test Loss'' l 1 \<in> set evs \<and>
           loss_after (ex_config 2 1) ex_env ex_trainer (1 - 1) = Some l)"
proof -
  have c: "completes (train (ex_config 2 1) ex_env ex_trainer)"
    by (simp add: run_defs2)
  have n: "1 < epoch (ex_config 2 1)" "writer (ex_config 2 1)" by (simp_all add: ex_config_def)
  from test_loss_read_never_unbound [of "ex_config 2 1" ex_env ex_trainer 1] c n
  show ?thesis by simp
qed

text \<open>
  Claim C3: the "best" checkpoint is written in an epoch exactly when the evaluation loss
  of that epoch is strictly lower than every evaluation loss of the previous epochs, so the
  first evaluation always writes it. As stated this is false: \<^verbatim>\<open>best_loss\<close> starts at
  1000000000, and a first evaluation whose loss is 2000000000 writes no checkpoint.
\<close>

theorem first_evaluation_without_best_checkpoint:
  "completes (train (ex_config 1 2000000000) ex_env ex_trainer) \<and>
   evaluations (the (iter_events (ex_config 1 2000000000) ex_env ex_trainer 0)) = 1 \<and>
   loss_after (ex_config 1 2000000000) ex_env ex_trainer 0 = Some (Fin 2000000000) \<and>
   saved_models (the (iter_events (ex_config 1 2000000000) ex_env ex_trainer 0)) = []"
  by (simp add: run_defs2)

text \<open>
  Claim C3, amended: in a run of \<^verbatim>\<open>train\<close>, the "best" checkpoint is written in the
  iteration with index \<open>e\<close> exactly when that iteration evaluates and its evaluation loss is
  strictly lower than 1000000000 and than every evaluation loss of the previous iterations
  that is a number (a NaN loss never becomes the best loss and is never the loss to beat).
\<close>

theorem best_checkpoint_iff:
  assumes "completes (train cfg env st)" and "0 \<le> e" and "e < epoch cfg"
  shows "\<exists>evs. iter_events cfg env st e = Some evs \<and>
           (snapshot_path cfg (TagStr ''best'') \<in> set (saved_models evs) \<longleftrightarrow>
              ((e = 0 \<or> (e + 1) mod 10 = 0) \<and>
               (\<exists>l. loss_after cfg env st e = Some l \<and>
                    np_less l (Fin 1000000000) \<and>
                    (\<forall>j x. 0 \<le> j \<and> j < e \<and> (j = 0 \<or> (j + 1) mod 10 = 0) \<and>
                           loss_after cfg env st j = Some (Fin x) \<longrightarrow> np_less l (Fin x)))))"
proof -
  from completes_iteration [OF assms] obtain s lc s' lc' where
    it: "iteration cfg env st e = Some ((s, lc), (s', lc'))"
    and sb: "state_before cfg env st e = Inr (s, lc)"
    and b: "train_body cfg env e (s, lc) = Inr (s', lc')" by blast
  have ie: "iter_events cfg env st e = Some (new_events s s')"
    by (simp add: iter_events_def it)
  have la: "loss_after cfg env st e = map_option res_loss (res lc')"
    by (simp add: loss_after_def it)
  from best_loss_invariant [OF assms(2) sb] obtain bl where bl1: "best_loss lc = Fin bl"
    and bl2: "bl \<le> 1000000000"
    and bl3: "bl = 1000000000 \<or>
         (\<exists>j. 0 \<le> j \<and> j < e \<and> (j = 0 \<or> (j + 1) mod 10 = 0) \<and>
              loss_after cfg env st j = Some (Fin bl))"
    and bl4: "\<forall>j x. 0 \<le> j \<and> j < e \<and> (j = 0 \<or> (j + 1) mod 10 = 0) \<and>
               loss_after cfg env st j = Some (Fin x) \<longrightarrow> bl \<le> x"
    by (elim exE conjE) (rule that)
  note eq = np_less_best [of bl e "loss_after cfg env st", OF bl2 bl3 bl4]
  have m: "snapshot_path cfg (TagStr ''best'') \<in> set (saved_models (new_events s s')) \<longleftrightarrow>
           (((e + 1) mod 10 = 0 \<or> e = 0) \<and>
            (\<exists>r. res lc' = Some r \<and> np_less (res_loss r) (Fin bl)))"
    using body_snapshots(2) [OF b] by (simp only: saved_models_iff bl1)
  have "snapshot_path cfg (TagStr ''best'') \<in> set (saved_models (new_events s s')) \<longleftrightarrow>
              ((e = 0 \<or> (e + 1) mod 10 = 0) \<and>
               (\<exists>l. loss_after cfg env st e = Some l \<and>
                    np_less l (Fin 1000000000) \<and>
                    (\<forall>j x. 0 \<le> j \<and> j < e \<and> (j = 0 \<or> (j + 1) mod 10 = 0) \<and>
                           loss_after cfg env st j = Some (Fin x) \<longrightarrow> np_less l (Fin x))))"
  proof (cases "res lc'")
    case None
    then show ?thesis unfolding m la by simp
  next
    case (Some r)
    have "loss_after cfg env st e = Some (res_loss r)" by (simp add: la Some)
    then show ?thesis unfolding m using eq [of "res_loss r"] by (auto simp: Some)
  qed
  then show ?thesis using ie by simp
qed

theorem best_checkpoint_iff_witness:
  "completes (train (ex_config 2 1) ex_env ex_trainer) \<and> (0::int) \<le> 0 \<and>
   0 < epoch (ex_config 2 1) \<and>
   iter_events (ex_config 2 1) ex_env ex_trainer 0 \<noteq> None \<and>
   snapshot_path (ex_config 2 1) (TagStr ''best'')
     \<in> set (saved_models (the (iter_events (ex_config 2 1) ex_env ex_trainer 0)))"
proof -
  have c: "completes (train (ex_config 2 1) ex_env ex_trainer)"
    by (simp add: run_defs2)
  have n: "0 < epoch (ex_config 2 1)" by (simp add: ex_config_def)
  have l: "loss_after (ex_config 2 1) ex_env ex_trainer 0 = Some (Fin 1)"
    by (simp add: run_defs2)
  from best_checkpoint_iff [OF c _ n] show ?thesis using c n l by auto
qed

text \<open>
  Claim C4: every forward pass and loss computation inside \<^verbatim>\<open>evaluate\<close> runs with gradient
  tracking disabled. As stated this is false: \<^verbatim>\<open>evaluate\<close> calls \<^verbatim>\<open>self.model.eval()\<close> and
  never touches the gradient mode, so called with gradient tracking enabled (the default,
  and the mode \<^verbatim>\<open>train\<close> needs for \<^verbatim>\<open>loss.backward()\<close>) it runs the network with
  gradient tracking enabled.
\<close>

theorem evaluate_forward_with_gradients:
  "eval_events (ex_config 1 1) ex_env 1 ex_trainer \<noteq> None \<and>
   grad_enabled ex_trainer \<and>
   Forward (ex_batch 1) False True
     \<in> set (the (eval_events (ex_config 1 1) ex_env 1 ex_trainer)) \<and>
   GetLoss (ex_batch 1) (ex_batch 1) True
     \<in> set (the (eval_events (ex_config 1 1) ex_env 1 ex_trainer))"
  by (simp add: run_defs2)

text \<open>
  Claim C4, amended: every forward pass inside \<^verbatim>\<open>evaluate\<close> runs with the network in eval
  mode: \<^verbatim>\<open>evaluate\<close> calls \<^verbatim>\<open>model.eval()\<close> first and \<^verbatim>\<open>model.train()\<close> last, switches the
  mode nowhere in between and returns with the network in train mode. Every forward pass
  and loss computation inside \<^verbatim>\<open>evaluate\<close> runs under the gradient mode in force when
  \<^verbatim>\<open>evaluate\<close> was called, and \<^verbatim>\<open>evaluate\<close> returns with that gradient mode unchanged: it
  does not disable gradient tracking.
\<close>

theorem evaluate_gradient_mode:
  assumes "eval_state cfg env ep st = Some st'"
  shows "grad_enabled st' = grad_enabled st \<and> model_training st' \<and>
         eval_events cfg env ep st = Some (new_events st st') \<and>
         (\<exists>evs. new_events st st' = SetMode False # evs @ [SetMode True] \<and>
                SetMode False \<notin> set evs \<and> SetMode True \<notin> set evs \<and>
                (\<forall>ev \<in> set evs. is_model_call ev \<longrightarrow> pass_event False (grad_enabled st) ev))"
proof -
  from eval_stateD [OF assms] obtain r where ev: "evaluate cfg env ep st = Inr (r, st')"
    by blast
  from evaluate_detail [OF ev] obtain es v1 r1 p1 v2 r2 p2 where
    t: "trace st' = trace st @ [SetMode False] @ es @
             [Forward v1 False (grad_enabled st), SaveFig (test_png cfg ep) (cpu r1)] @
             (if ep = 10 then [SaveFig (test_0_png cfg) (cpu (on_device cfg p1))] else []) @
             [Forward v2 False (grad_enabled st),
              SaveFig (train_png cfg ep) (cpu r2),
              SaveFig (train_origin_png cfg ep) (cpu (on_device cfg p2)),
              SetMode True]"
    and p: "list_all (pass_event False (grad_enabled st)) es"
    by (elim exE conjE) (rule that)
  define evs where "evs = es @
             [Forward v1 False (grad_enabled st), SaveFig (test_png cfg ep) (cpu r1)] @
             (if ep = 10 then [SaveFig (test_0_png cfg) (cpu (on_device cfg p1))] else []) @
             [Forward v2 False (grad_enabled st),
              SaveFig (train_png cfg ep) (cpu r2),
              SaveFig (train_origin_png cfg ep) (cpu (on_device cfg p2))]"
  have "trace st' = trace st @ (SetMode False # evs @ [SetMode True])"
    unfolding t evs_def by simp
  then have n: "new_events st st' = SetMode False # evs @ [SetMode True]"
    by (rule new_events_append)
  have a: "\<forall>ev \<in> set es. pass_event False (grad_enabled st) ev"
    using p by (simp add: list_all_iff)
  have m: "SetMode False \<notin> set evs" "SetMode True \<notin> set evs"
    using pass_event_not_mode [OF p] by (auto simp: evs_def)
  have c: "\<forall>ev \<in> set evs. is_model_call ev \<longrightarrow> pass_event False (grad_enabled st) ev"
    using a by (auto simp: evs_def)
  have e: "eval_events cfg env ep st = Some (new_events st st')"
    by (simp add: eval_events_def ev)
  from n m c have "\<exists>evs. new_events st st' = SetMode False # evs @ [SetMode True] \<and>
                SetMode False \<notin> set evs \<and> SetMode True \<notin> set evs \<and>
                (\<forall>ev \<in> set evs. is_model_call ev \<longrightarrow> pass_event False (grad_enabled st) ev)"
    by (intro exI [of _ evs] conjI)
  then show ?thesis
    using evaluate_Inr(4,6) [OF ev] e by simp
qed

theorem evaluate_gradient_mode_witness:
  "eval_state (ex_config 1 1) ex_env 1 ex_trainer \<noteq> None \<and>
   grad_enabled (the (eval_state (ex_config 1 1) ex_env 1 ex_trainer)) = grad_enabled ex_trainer \<and>
   model_training (the (eval_state (ex_config 1 1) ex_env 1 ex_trainer)) \<and>
   hd (new_events ex_trainer (the (eval_state (ex_config 1 1) ex_env 1 ex_trainer))) = SetMode False \<and>
   last (new_events ex_trainer (the (eval_state (ex_config 1 1) ex_env 1 ex_trainer))) = SetMode True"
proof -
  have c: "eval_state (ex_config 1 1) ex_env 1 ex_trainer \<noteq> None"
    by (simp add: run_defs2)
  then have s: "eval_state (ex_config 1 1) ex_env 1 ex_trainer =
               Some (the (eval_state (ex_config 1 1) ex_env 1 ex_trainer))" by simp
  from evaluate_gradient_mode [OF s] show ?thesis using c by auto
qed

text \<open>
  Claim C5: in a run of \<^verbatim>\<open>train\<close>, \<^verbatim>\<open>evaluate\<close> is invoked in the iteration with zero-based
  index \<open>e\<close> exactly when \<open>e = 0\<close> or \<open>e + 1\<close> is a multiple of 10, that is at the one-based
  epochs 1, 10, 20, 30, \<dots> The invocation is observed by \<^verbatim>\<open>self.model.eval()\<close>, the first
  statement of \<^verbatim>\<open>evaluate\<close>.
\<close>

theorem evaluate_schedule:
  assumes "completes (train cfg env st)" and "0 \<le> e" and "e < epoch cfg"
  shows "\<exists>evs. iter_events cfg env st e = Some evs \<and>
           (SetMode False \<in> set evs \<longleftrightarrow> (e = 0 \<or> (e + 1) mod 10 = 0)) \<and>
           ((e = 0 \<or> (e + 1) mod 10 = 0) \<longleftrightarrow> (e + 1 = 1 \<or> (\<exists>k\<ge>1. e + 1 = 10 * k)))"
proof -
  from completes_iteration [OF assms] obtain s lc s' lc' where
    it: "iteration cfg env st e = Some ((s, lc), (s', lc'))"
    and b: "train_body cfg env e (s, lc) = Inr (s', lc')" by blast
  have "iter_events cfg env st e = Some (new_events s s')"
    by (simp add: iter_events_def it)
  moreover have "SetMode False \<in> set (new_events s s') \<longleftrightarrow> (e = 0 \<or> (e + 1) mod 10 = 0)"
    using body_eval_marker [OF b] by auto
  moreover have "(e + 1) mod 10 = 0 \<longleftrightarrow> (\<exists>k\<ge>1. e + 1 = 10 * k)"
    using assms(2) by presburger
  ultimately show ?thesis by simp
qed

theorem evaluate_schedule_witness:
  "completes (train (ex_config 2 1) ex_env ex_trainer) \<and> (0::int) \<le> 1 \<and>
   1 < epoch (ex_config 2 1) \<and>
   iter_events (ex_config 2 1) ex_env ex_trainer 1 \<noteq> None \<and>
   SetMode False \<notin> set (the (iter_events (ex_config 2 1) ex_env ex_trainer 1))"
proof -
  have c: "completes (train (ex_config 2 1) ex_env ex_trainer)"
    by (simp add: run_defs2)
  have n: "1 < epoch (ex_config 2 1)" by (simp add: ex_config_def)
  from evaluate_schedule [OF c _ n] show ?thesis using c n by auto
qed

text \<open>
  Claim C6: an invocation of \<^verbatim>\<open>evaluate\<close> at epoch tag \<open>e\<close> writes exactly the figures
  \<^verbatim>\<open>test_<e>.png\<close>, \<^verbatim>\<open>train_<e>.png\<close> and \<^verbatim>\<open>train_<e>_origin.png\<close> of the result
  directory, plus \<^verbatim>\<open>test_0.png\<close> exactly on the tenth evaluation of the run. As stated this
  is false: the guard is \<^verbatim>\<open>epoch == 10\<close> on the tag, and \<^verbatim>\<open>train\<close> evaluates at the tags
  1, 10, 20, \<dots>, so a run of ten epochs makes two evaluations and writes \<^verbatim>\<open>test_0.png\<close>.
\<close>

theorem test_0_written_on_second_evaluation:
  "run_events (ex_config 10 1) ex_env ex_trainer \<noteq> None \<and>
   evaluations (the (run_events (ex_config 10 1) ex_env ex_trainer)) = 2 \<and>
   ''results/test_0.png''
     \<in> set (saved_figures (the (run_events (ex_config 10 1) ex_env ex_trainer)))"
  by (simp add: run_defs2)

text \<open>
  Claim C6, amended: an invocation of \<^verbatim>\<open>evaluate\<close> at epoch tag \<open>e\<close> that returns saves
  exactly these figures, in this order: \<^verbatim>\<open>test_<e>.png\<close>, showing the network's
  reconstruction (in eval mode) of the first sample of the test dataset; then
  \<^verbatim>\<open>test_0.png\<close>, showing that sample itself, when and only when the tag \<open>e\<close> is 10; then
  \<^verbatim>\<open>train_<e>.png\<close>, showing the reconstruction of the first sample of the train dataset,
  and \<^verbatim>\<open>train_<e>_origin.png\<close>, showing that sample itself. Each path is the configured
  result directory followed directly by the file name.
\<close>

theorem evaluate_figures:
  assumes "eval_events cfg env ep st = Some evs"
  shows "\<exists>p1 l1 rest1 v1 r1 p2 l2 rest2 v2 r2.
           loader_dataset (test_loader cfg) = (p1, l1) # rest1 \<and>
           loader_dataset (train_loader cfg) = (p2, l2) # rest2 \<and>
           view (on_device cfg p1) [1, 2048, 3] = Inr v1 \<and>
           view (on_device cfg p2) [1, 2048, 3] = Inr v2 \<and>
           item0 (forward env (model_params st) False v1) = Inr r1 \<and>
           item0 (forward env (model_params st) False v2) = Inr r2 \<and>
           figures evs =
             [(result_dir cfg @ ''test_'' @ str_int ep @ ''.png'', cpu r1)] @
             (if ep = 10 then [(result_dir cfg @ ''test_0.png'', cpu (on_device cfg p1))] else []) @
             [(result_dir cfg @ ''train_'' @ str_int ep @ ''.png'', cpu r2),
              (result_dir cfg @ ''train_'' @ str_int ep @ ''_origin.png'', cpu (on_device cfg p2))]"
proof -
  from eval_eventsD [OF assms] obtain r st' where
    ev: "evaluate cfg env ep st = Inr (r, st')" and n: "evs = new_events st st'" by blast
  from evaluate_detail [OF ev] obtain es p1 l1 rest1 v1 r1 p2 l2 rest2 v2 r2 where
    d: "loader_dataset (test_loader cfg) = (p1, l1) # rest1"
       "loader_dataset (train_loader cfg) = (p2, l2) # rest2"
       "view (on_device cfg p1) [1, 2048, 3] = Inr v1"
       "view (on_device cfg p2) [1, 2048, 3] = Inr v2"
       "item0 (forward env (model_params st) False v1) = Inr r1"
       "item0 (forward env (model_params st) False v2) = Inr r2"
    and t: "trace st' = trace st @ [SetMode False] @ es @
             [Forward v1 False (grad_enabled st), SaveFig (test_png cfg ep) (cpu r1)] @
             (if ep = 10 then [SaveFig (test_0_png cfg) (cpu (on_device cfg p1))] else []) @
             [Forward v2 False (grad_enabled st),
              SaveFig (train_png cfg ep) (cpu r2),
              SaveFig (train_origin_png cfg ep) (cpu (on_device cfg p2)),
              SetMode True]"
    and p: "list_all (pass_event False (grad_enabled st)) es"
    by (elim exE conjE) (rule that)
  from new_events_append [OF t] have
    "evs = [SetMode False] @ es @
             [Forward v1 False (grad_enabled st), SaveFig (test_png cfg ep) (cpu r1)] @
             (if ep = 10 then [SaveFig (test_0_png cfg) (cpu (on_device cfg p1))] else []) @
             [Forward v2 False (grad_enabled st),
              SaveFig (train_png cfg ep) (cpu r2),
              SaveFig (train_origin_png cfg ep) (cpu (on_device cfg p2)),
              SetMode True]"
    by (simp only: n)
  then have "figures evs =
           [(test_png cfg ep, cpu r1)] @
           (if ep = 10 then [(test_0_png cfg, cpu (on_device cfg p1))] else []) @
           [(train_png cfg ep, cpu r2), (train_origin_png cfg ep, cpu (on_device cfg p2))]"
    using figures_pass [OF p] by (simp add: figures_append)
  then have f: "figures evs =
             [(result_dir cfg @ ''test_'' @ str_int ep @ ''.png'', cpu r1)] @
             (if ep = 10 then [(result_dir cfg @ ''test_0.png'', cpu (on_device cfg p1))] else []) @
             [(result_dir cfg @ ''train_'' @ str_int ep @ ''.png'', cpu r2),
              (result_dir cfg @ ''train_'' @ str_int ep @ ''_origin.png'', cpu (on_device cfg p2))]"
    by (simp only: test_png_def test_0_png_def train_png_def train_origin_png_def)
  from d f show ?thesis by (intro exI conjI)
qed

theorem evaluate_figures_witness:
  "eval_events (ex_config 1 1) ex_env 10 ex_trainer \<noteq> None \<and>
   figures (the (eval_events (ex_config 1 1) ex_env 10 ex_trainer)) =
     [(''results/test_10.png'', ex_sample 5), (''results/test_0.png'', ex_sample 5),
      (''results/train_10.png'', ex_sample 1), (''results/train_10_origin.png'', ex_sample 1)] \<and>
   (\<exists>p1 l1 rest1 v1 r1 p2 l2 rest2 v2 r2.
           loader_dataset (test_loader (ex_config 1 1)) = (p1, l1) # rest1 \<and>
           loader_dataset (train_loader (ex_config 1 1)) = (p2, l2) # rest2 \<and>
           view (on_device (ex_config 1 1) p1) [1, 2048, 3] = Inr v1 \<and>
           view (on_device (ex_config 1 1) p2) [1, 2048, 3] = Inr v2 \<and>
           item0 (forward ex_env (model_params ex_trainer) False v1) = Inr r1 \<and>
           item0 (forward ex_env (model_params ex_trainer) False v2) = Inr r2 \<and>
           figures (the (eval_events (ex_config 1 1) ex_env 10 ex_trainer)) =
             [(result_dir (ex_config 1 1) @ ''test_'' @ str_int 10 @ ''.png'', cpu r1)] @
             (if (10::int) = 10
              then [(result_dir (ex_config 1 1) @ ''test_0.png'', cpu (on_device (ex_config 1 1) p1))]
              else []) @
             [(result_dir (ex_config 1 1) @ ''train_'' @ str_int 10 @ ''.png'', cpu r2),
              (result_dir (ex_config 1 1) @ ''train_'' @ str_int 10 @ ''_origin.png'',
               cpu (on_device (ex_config 1 1) p2))])"
proof -
  have c: "eval_events (ex_config 1 1) ex_env 10 ex_trainer \<noteq> None"
    by (simp add: run_defs2)
  then have s: "eval_events (ex_config 1 1) ex_env 10 ex_trainer =
               Some (the (eval_events (ex_config 1 1) ex_env 10 ex_trainer))" by simp
  have f: "figures (the (eval_events (ex_config 1 1) ex_env 10 ex_trainer)) =
     [(''results/test_10.png'', ex_sample 5), (''results/test_0.png'', ex_sample 5),
      (''results/train_10.png'', ex_sample 1), (''results/train_10_origin.png'', ex_sample 1)]"
    by (simp add: run_defs2)
  from c f evaluate_figures [OF s] show ?thesis by (intro conjI)
qed



text \<open>
  Claim C8: in a run of \<^verbatim>\<open>train\<close> with scheduler interval \<open>K\<close>, the scheduler is stepped in
  the iteration with zero-based index \<open>e\<close> exactly when \<open>e\<close> is a multiple of \<open>K\<close>; so it is
  stepped at index 0.
\<close>

theorem scheduler_schedule:
  assumes "completes (train cfg env st)" and "0 \<le> e" and "e < epoch cfg"
  shows "\<exists>evs. iter_events cfg env st e = Some evs \<and>
           (SchedulerStep \<in> set evs \<longleftrightarrow> e mod scheduler_interval cfg = 0) \<and>
           (e mod scheduler_interval cfg = 0 \<longleftrightarrow> scheduler_interval cfg dvd e)"
proof -
  from completes_iteration [OF assms] obtain s lc s' lc' where
    it: "iteration cfg env st e = Some ((s, lc), (s', lc'))"
    and b: "train_body cfg env e (s, lc) = Inr (s', lc')" by blast
  have "iter_events cfg env st e = Some (new_events s s')"
    by (simp add: iter_events_def it)
  then show ?thesis using body_scheduler_step [OF b] by (simp add: mod_eq_0_iff_dvd)
qed

theorem scheduler_schedule_witness:
  "completes (train (ex_config 2 1) ex_env ex_trainer) \<and> (0::int) \<le> 0 \<and>
   0 < epoch (ex_config 2 1) \<and>
   iter_events (ex_config 2 1) ex_env ex_trainer 0 \<noteq> None \<and>
   SchedulerStep \<in> set (the (iter_events (ex_config 2 1) ex_env ex_trainer 0))"
proof -
  have c: "completes (train (ex_config 2 1) ex_env ex_trainer)"
    by (simp add: run_defs2)
  have n: "0 < epoch (ex_config 2 1)" by (simp add: ex_config_def)
  from scheduler_schedule [OF c _ n] show ?thesis using c n by auto
qed

text \<open>
  Claim C9: when a run of \<^verbatim>\<open>train\<close> over \<open>N\<close> epochs returns, the history holds \<open>N\<close> losses,
  \<open>N\<close> epoch times and one total time, and every iteration adds one loss and one epoch
  time: iteration \<open>e\<close> starts with \<open>e\<close> entries in each list and ends with \<open>e + 1\<close>. (A
  negative epoch count runs no iteration; \<open>nat\<close> reads it as 0.)
\<close>

theorem history_lengths:
  assumes "completes (train cfg env st)"
  shows "(\<exists>h. final_hist cfg env st = Some h \<and>
              length (hist_loss h) = nat (epoch cfg) \<and>
              length (per_epoch_time h) = nat (epoch cfg) \<and>
              length (total_time h) = 1) \<and>
         (\<forall>e. 0 \<le> e \<and> e < epoch cfg \<longrightarrow>
            (\<exists>s lc s' lc' h h'.
               iteration cfg env st e = Some ((s, lc), (s', lc')) \<and>
               train_hist s = Some h \<and> train_hist s' = Some h' \<and>
               length (hist_loss h) = nat e \<and> length (hist_loss h') = nat e + 1 \<and>
               length (per_epoch_time h) = nat e \<and> length (per_epoch_time h') = nat e + 1))"
proof (intro conjI allI impI)
  obtain t0 st0 lc0 where b: "train_begin env st = (t0, st0, lc0)"
    by (cases "train_begin env st")
  from assms obtain st' where tr: "train cfg env st = Inr st'"
    by (cases "train cfg env st") (simp_all add: completes_def)
  from tr obtain y where y: "train_loop cfg env [0..epoch cfg - 1] (st0, lc0) = Inr y"
    and e0: "(case y of (st1, lc1) \<Rightarrow> train_end cfg env t0 st1) = Inr st'"
    unfolding train_def b by (auto dest: sum_case_InrD)
  obtain s1 lc1 where y': "y = (s1, lc1)" by (cases y)
  have sb: "state_before cfg env st (epoch cfg) = Inr (s1, lc1)"
    using y by (simp add: state_before_def b y')
  from state_before_hist [OF sb] obtain h where h: "train_hist s1 = Some h"
    "length (hist_loss h) = nat (epoch cfg)" "length (per_epoch_time h) = nat (epoch cfg)"
    "total_time h = []" by blast
  have "train_end cfg env t0 s1 = Inr st'" using e0 by (simp add: y')
  then have "\<exists>h. train_hist st' = Some h \<and>
              length (hist_loss h) = nat (epoch cfg) \<and>
              length (per_epoch_time h) = nat (epoch cfg) \<and>
              length (total_time h) = 1"
    using h by (auto simp: train_end_def time_now_def Let_def split: prod.splits)
  then show "\<exists>h. final_hist cfg env st = Some h \<and>
              length (hist_loss h) = nat (epoch cfg) \<and>
              length (per_epoch_time h) = nat (epoch cfg) \<and>
              length (total_time h) = 1"
    by (simp add: final_hist_def tr)
next
  fix e assume e: "0 \<le> e \<and> e < epoch cfg"
  from completes_iteration [OF assms] e obtain s lc s' lc' where
    it: "iteration cfg env st e = Some ((s, lc), (s', lc'))"
    and sb: "state_before cfg env st e = Inr (s, lc)"
    and b: "train_body cfg env e (s, lc) = Inr (s', lc')" by blast
  from state_before_hist [OF sb] obtain h where h: "train_hist s = Some h"
    "length (hist_loss h) = nat e" "length (per_epoch_time h) = nat e" by blast
  from train_body_hist [OF b h(1)] obtain h' where h': "train_hist s' = Some h'"
    "length (hist_loss h') = length (hist_loss h) + 1"
    "length (per_epoch_time h') = length (per_epoch_time h) + 1" by blast
  show "\<exists>s lc s' lc' h h'.
               iteration cfg env st e = Some ((s, lc), (s', lc')) \<and>
               train_hist s = Some h \<and> train_hist s' = Some h' \<and>
               length (hist_loss h) = nat e \<and> length (hist_loss h') = nat e + 1 \<and>
               length (per_epoch_time h) = nat e \<and> length (per_epoch_time h') = nat e + 1"
    using it h h' by (intro exI conjI) (assumption | simp)+
qed

theorem history_lengths_witness:
  "completes (train (ex_config 2 1) ex_env ex_trainer) \<and>
   (\<exists>h. final_hist (ex_config 2 1) ex_env ex_trainer = Some h \<and>
        length (hist_loss h) = 2 \<and> length (per_epoch_time h) = 2 \<and>
        length (total_time h) = 1)"
proof -
  have c: "completes (train (ex_config 2 1) ex_env ex_trainer)"
    by (simp add: run_defs2)
  have n: "nat (epoch (ex_config 2 1)) = 2" by (simp add: ex_config_def)
  from history_lengths [OF c] show ?thesis using c unfolding n by blast
qed

text \<open>
  Claim C10: \<^verbatim>\<open>evaluate\<close> reshapes the first sample of the test dataset and of the train
  dataset with the hard-coded \<^verbatim>\<open>view(1, 2048, 3)\<close>, so it succeeds only when each such sample
  holds exactly 2048 three-dimensional points, whatever \<^verbatim>\<open>num_points\<close> is. As stated this
  is false: \<^verbatim>\<open>view\<close> compares numbers of elements, and \<^verbatim>\<open>evaluate\<close> returns on datasets
  whose samples are 1024 points of six coordinates.
\<close>

theorem evaluate_accepts_1024_points_of_six:
  "completes (evaluate ex_wide_config ex_env 1 ex_trainer) \<and>
   shape (fst (hd (loader_dataset (test_loader ex_wide_config)))) = [1024, 6] \<and>
   shape (fst (hd (loader_dataset (train_loader ex_wide_config)))) = [1024, 6]"
  by (simp add: run_defs2)

text \<open>
  Claim C10, amended: \<^verbatim>\<open>evaluate\<close> reshapes the first sample of the test dataset and the
  first sample of the train dataset to the shape \<open>(1, 2048, 3)\<close>, with the hard-coded 2048
  and not \<^verbatim>\<open>num_points\<close>, and hands the reshaped tensors, with the values of the samples,
  to the network. So \<^verbatim>\<open>evaluate\<close> returns only when each of the two samples holds exactly
  \<open>2048 * 3\<close> values; for a sample of \<open>n\<close> three-dimensional points, only when \<open>n = 2048\<close>.
  \<^verbatim>\<open>evaluate\<close> does the same for every value of \<^verbatim>\<open>num_points\<close>.
\<close>

theorem evaluate_needs_2048_points:
  assumes "eval_events cfg env ep st = Some evs"
  shows "(\<exists>p1 l1 rest1 v1 p2 l2 rest2 v2.
            loader_dataset (test_loader cfg) = (p1, l1) # rest1 \<and>
            loader_dataset (train_loader cfg) = (p2, l2) # rest2 \<and>
            numel p1 = 2048 * 3 \<and> numel p2 = 2048 * 3 \<and>
            (\<forall>n. shape p1 = [n, 3] \<longrightarrow> n = 2048) \<and>
            (\<forall>n. shape p2 = [n, 3] \<longrightarrow> n = 2048) \<and>
            view (on_device cfg p1) [1, 2048, 3] = Inr v1 \<and>
            view (on_device cfg p2) [1, 2048, 3] = Inr v2 \<and>
            shape v1 = [1, 2048, 3] \<and> shape v2 = [1, 2048, 3] \<and>
            elems v1 = elems p1 \<and> elems v2 = elems p2 \<and>
            Forward v1 False (grad_enabled st) \<in> set evs \<and>
            Forward v2 False (grad_enabled st) \<in> set evs) \<and>
         evaluate (cfg\<lparr>num_points := k\<rparr>) env ep st = evaluate cfg env ep st"
proof -
  from eval_eventsD [OF assms] obtain r st' where
    ev: "evaluate cfg env ep st = Inr (r, st')" and n: "evs = new_events st st'" by blast
  from evaluate_detail [OF ev] obtain es p1 l1 rest1 v1 r1 p2 l2 rest2 v2 r2 where
    d: "loader_dataset (test_loader cfg) = (p1, l1) # rest1"
       "loader_dataset (train_loader cfg) = (p2, l2) # rest2"
       "numel p1 = 2048 * 3" "numel p2 = 2048 * 3"
       "view (on_device cfg p1) [1, 2048, 3] = Inr v1"
       "view (on_device cfg p2) [1, 2048, 3] = Inr v2"
       "shape v1 = [1, 2048, 3]" "shape v2 = [1, 2048, 3]"
    and t: "trace st' = trace st @ [SetMode False] @ es @
             [Forward v1 False (grad_enabled st), SaveFig (test_png cfg ep) (cpu r1)] @
             (if ep = 10 then [SaveFig (test_0_png cfg) (cpu (on_device cfg p1))] else []) @
             [Forward v2 False (grad_enabled st),
              SaveFig (train_png cfg ep) (cpu r2),
              SaveFig (train_origin_png cfg ep) (cpu (on_device cfg p2)),
              SetMode True]"
    by (elim exE conjE) (rule that)
  have n1: "\<forall>n. shape p1 = [n, 3] \<longrightarrow> n = 2048" using d(3) by (auto simp: numel_def)
  have n2: "\<forall>n. shape p2 = [n, 3] \<longrightarrow> n = 2048" using d(4) by (auto simp: numel_def)
  have e1: "elems v1 = elems p1"
    using d(5) by (auto simp: view_def on_device_def cuda_def split: if_splits)
  have e2: "elems v2 = elems p2"
    using d(6) by (auto simp: view_def on_device_def cuda_def split: if_splits)
  have f1: "Forward v1 False (grad_enabled st) \<in> set evs"
    and f2: "Forward v2 False (grad_enabled st) \<in> set evs"
    unfolding n new_events_append [OF t] by simp_all
  from d n1 n2 e1 e2 f1 f2 have "\<exists>p1 l1 rest1 v1 p2 l2 rest2 v2.
            loader_dataset (test_loader cfg) = (p1, l1) # rest1 \<and>
            loader_dataset (train_loader cfg) = (p2, l2) # rest2 \<and>
            numel p1 = 2048 * 3 \<and> numel p2 = 2048 * 3 \<and>
            (\<forall>n. shape p1 = [n, 3] \<longrightarrow> n = 2048) \<and>
            (\<forall>n. shape p2 = [n, 3] \<longrightarrow> n = 2048) \<and>
            view (on_device cfg p1) [1, 2048, 3] = Inr v1 \<and>
            view (on_device cfg p2) [1, 2048, 3] = Inr v2 \<and>
            shape v1 = [1, 2048, 3] \<and> shape v2 = [1, 2048, 3] \<and>
            elems v1 = elems p1 \<and> elems v2 = elems p2 \<and>
            Forward v1 False (grad_enabled st) \<in> set evs \<and>
            Forward v2 False (grad_enabled st) \<in> set evs"
    by (intro exI conjI)
  then show ?thesis using evaluate_num_points by (rule conjI)
qed

theorem evaluate_needs_2048_points_witness:
  "eval_events (ex_config 1 1) ex_env 1 ex_trainer \<noteq> None \<and>
   numel (fst (hd (loader_dataset (test_loader (ex_config 1 1))))) = 2048 * 3 \<and>
   numel (fst (hd (loader_dataset (train_loader (ex_config 1 1))))) = 2048 * 3 \<and>
   Forward (ex_batch 5) False True
     \<in> set (the (eval_events (ex_config 1 1) ex_env 1 ex_trainer)) \<and>
   evaluate ((ex_config 1 1)\<lparr>num_points := 1024\<rparr>) ex_env 1 ex_trainer =
     evaluate (ex_config 1 1) ex_env 1 ex_trainer"
proof -
  have c: "eval_events (ex_config 1 1) ex_env 1 ex_trainer \<noteq> None"
    by (simp add: run_defs2)
  then have s: "eval_events (ex_config 1 1) ex_env 1 ex_trainer =
               Some (the (eval_events (ex_config 1 1) ex_env 1 ex_trainer))" by simp
  have m: "Forward (ex_batch 5) False True
     \<in> set (the (eval_events (ex_config 1 1) ex_env 1 ex_trainer))"
    by (simp add: run_defs2)
  from evaluate_needs_2048_points [OF s, of 1024] show ?thesis using c m by auto
qed

end
